theory Spec2Isabelle
  imports Complex_Main "HOL-Library.Word"
begin

section \<open>Python primitives used by the services\<close>

text \<open>
  Python strings are modelled as \<open>string\<close>; \<open>str.lower\<close> is modelled on the ASCII
  letters, which is all the extension and provider checks look at.  Python floats are
  modelled as exact reals.  An exception is a value carrying its message (\<open>str(e)\<close>).
\<close>

datatype exn = Exception string

fun str_exn :: "exn \<Rightarrow> string" where
  "str_exn (Exception m) = m"

definition lower_char :: "char \<Rightarrow> char" where
  "lower_char c =
     (case map_of (zip ''ABCDEFGHIJKLMNOPQRSTUVWXYZ'' ''abcdefghijklmnopqrstuvwxyz'') c of
        Some l \<Rightarrow> l
      | None \<Rightarrow> c)"

definition lower :: "string \<Rightarrow> string" where
  "lower s = map lower_char s"

definition is_space :: "char \<Rightarrow> bool" where
  "is_space c = (c \<in> set [CHR '' '', CHR 0x09, CHR 0x0A, CHR 0x0B, CHR 0x0C, CHR 0x0D])"

definition strip :: "string \<Rightarrow> string" where
  "strip s = rev (dropWhile is_space (rev (dropWhile is_space s)))"

text \<open>\<open>round(x, ndigits)\<close>: to the nearest multiple of \<open>10^-ndigits\<close>, ties to even.\<close>

definition round_half_even :: "real \<Rightarrow> int" where
  "round_half_even x =
     (let f = \<lfloor>x\<rfloor>; r = x - of_int f
      in if r < 1 / 2 then f else if 1 / 2 < r then f + 1 else if even f then f else f + 1)"

definition py_round :: "real \<Rightarrow> nat \<Rightarrow> real" where
  "py_round x ndigits = of_int (round_half_even (x * 10 ^ ndigits)) / 10 ^ ndigits"

text \<open>
  \<open>Path(p).suffix\<close> of \<open>pathlib\<close> on a POSIX path: the name is the last component
  that is neither empty nor \<open>.\<close>; the suffix starts at the last dot of the name, provided
  that dot is neither its first nor its last character.
\<close>

fun split_slash :: "string \<Rightarrow> string \<Rightarrow> string list" where
  "split_slash acc [] = [rev acc]"
| "split_slash acc (c # cs) =
     (if c = CHR ''/'' then rev acc # split_slash [] cs else split_slash (c # acc) cs)"

definition path_name :: "string \<Rightarrow> string" where
  "path_name p =
     (case rev (filter (\<lambda>s. s \<noteq> [] \<and> s \<noteq> ''.'') (split_slash [] p)) of
        [] \<Rightarrow> []
      | n # _ \<Rightarrow> n)"

definition path_suffix :: "string \<Rightarrow> string" where
  "path_suffix p =
     (let name = path_name p
      in if CHR ''.'' \<notin> set name then []
         else let i = length name - 1 - length (takeWhile (\<lambda>c. c \<noteq> CHR ''.'') (rev name))
              in if 0 < i \<and> i < length name - 1 then drop i name else [])"

section \<open>Configuration (app/core/config.py)\<close>

record Settings =
  LLM_PROVIDER :: string
  OPENAI_API_KEY :: string
  OPENAI_MODEL :: string
  ANTHROPIC_API_KEY :: string
  ANTHROPIC_MODEL :: string
  UPLOAD_DIR :: string
  MAX_FILE_SIZE :: int
  ALLOWED_EXTENSIONS :: "string list"

definition default_settings :: Settings where
  "default_settings =
     \<lparr> LLM_PROVIDER = ''anthropic'',
       OPENAI_API_KEY = '''',
       OPENAI_MODEL = ''gpt-3.5-turbo'',
       ANTHROPIC_API_KEY = '''',
       ANTHROPIC_MODEL = ''claude-haiku-4-5-20251001'',
       UPLOAD_DIR = ''./uploads'',
       MAX_FILE_SIZE = 10 * 1024 * 1024,
       ALLOWED_EXTENSIONS = [''.txt'', ''.pdf''] \<rparr>"

section \<open>Document processing service (app/services/document_processor.py)\<close>

text \<open>
  \<open>validate_file\<close> returns the validity flag and, on failure, the reason.  The reason
  is kept as a value carrying the data the message is formatted from.
\<close>

datatype validation_error =
    TypeNotAllowed string "string list"
  | SizeExceeded int

definition validate_file :: "Settings \<Rightarrow> string \<Rightarrow> int \<Rightarrow> bool \<times> validation_error option" where
  "validate_file settings filename file_size =
     (let file_ext = lower (path_suffix filename)
      in if file_ext \<notin> set (ALLOWED_EXTENSIONS settings)
         then (False, Some (TypeNotAllowed file_ext (ALLOWED_EXTENSIONS settings)))
         else if file_size > MAX_FILE_SIZE settings
         then (False, Some (SizeExceeded (MAX_FILE_SIZE settings)))
         else (True, None))"

text \<open>
  The upload directory is a map from path to content.  \<open>uuid.uuid4().hex\<close> is random;
  the generated hexadecimal name is a parameter.  \<open>os.path.join(dir, name)\<close> for a
  non-empty \<open>dir\<close> without trailing slash and a relative \<open>name\<close>.
\<close>

type_synonym byte = "8 word"
type_synonym storage = "string \<rightharpoonup> byte list"

definition path_join :: "string \<Rightarrow> string \<Rightarrow> string" where
  "path_join dir name =
     (if name \<noteq> [] \<and> hd name = CHR ''/'' then name
      else if dir = [] \<or> last dir = CHR ''/'' then dir @ name
      else dir @ ''/'' @ name)"

definition save_file ::
  "Settings \<Rightarrow> string \<Rightarrow> storage \<Rightarrow> byte list \<Rightarrow> string \<Rightarrow> (string \<times> string) \<times> storage" where
  "save_file settings uuid_hex disk file_content original_filename =
     (let file_ext = lower (path_suffix original_filename);
          unique_filename = uuid_hex @ file_ext;
          file_path = path_join (UPLOAD_DIR settings) unique_filename
      in ((unique_filename, file_path), disk(file_path \<mapsto> file_content)))"


section \<open>Answer generation service: backend selection (app/services/llm_service.py)\<close>

datatype llm_client =
    ChatAnthropic string string
  | ChatOpenAI string string

record LLMService =
  llm :: "llm_client option"
  initialized :: bool
  provider :: "string option"
  model_name :: "string option"

definition new_LLMService :: LLMService where
  "new_LLMService = \<lparr> llm = None, initialized = False, provider = None, model_name = None \<rparr>"

definition ensure_initialized :: "Settings \<Rightarrow> LLMService \<Rightarrow> LLMService" where
  "ensure_initialized settings self =
     (if initialized self then self
      else
        let provider' = lower (LLM_PROVIDER settings)
        in if provider' = ''anthropic'' \<and> ANTHROPIC_API_KEY settings \<noteq> []
           then self\<lparr> llm := Some (ChatAnthropic (ANTHROPIC_API_KEY settings) (ANTHROPIC_MODEL settings)),
                      provider := Some ''anthropic'',
                      model_name := Some (ANTHROPIC_MODEL settings),
                      initialized := True \<rparr>
           else if provider' = ''openai'' \<and> OPENAI_API_KEY settings \<noteq> []
           then self\<lparr> llm := Some (ChatOpenAI (OPENAI_API_KEY settings) (OPENAI_MODEL settings)),
                      provider := Some ''openai'',
                      model_name := Some (OPENAI_MODEL settings),
                      initialized := True \<rparr>
           else if ANTHROPIC_API_KEY settings \<noteq> []
           then self\<lparr> llm := Some (ChatAnthropic (ANTHROPIC_API_KEY settings) (ANTHROPIC_MODEL settings)),
                      provider := Some ''anthropic'',
                      model_name := Some (ANTHROPIC_MODEL settings),
                      initialized := True \<rparr>
           else if OPENAI_API_KEY settings \<noteq> []
           then self\<lparr> llm := Some (ChatOpenAI (OPENAI_API_KEY settings) (OPENAI_MODEL settings)),
                      provider := Some ''openai'',
                      model_name := Some (OPENAI_MODEL settings),
                      initialized := True \<rparr>
           else self\<lparr> llm := None,
                      provider := Some ''mock'',
                      model_name := Some ''mock'',
                      initialized := True \<rparr>)"

datatype backend = Anthropic | OpenAI | NoBackend

fun backend_of :: "llm_client option \<Rightarrow> backend" where
  "backend_of (Some (ChatAnthropic _ _)) = Anthropic"
| "backend_of (Some (ChatOpenAI _ _)) = OpenAI"
| "backend_of None = NoBackend"

section \<open>Vector index service: mock embedding (app/services/vector_store.py)\<close>

text \<open>
  \<open>hashlib.sha256(...).digest()\<close> is a library function returning 32 bytes; it is a
  parameter of the model, and the digest size is part of its type.
\<close>

typedef digest = "{bs :: byte list. length bs = 32}"
  by (rule exI [of _ "replicate 32 0"]) simp

type_synonym embedding = "real list"

definition get_mock_embedding :: "(string \<Rightarrow> digest) \<Rightarrow> string \<Rightarrow> embedding" where
  "get_mock_embedding sha256 text =
     (let hash_bytes = Rep_digest (sha256 text)
      in map (\<lambda>i. let byte_idx = i mod length hash_bytes
                   in (real (unat (hash_bytes ! byte_idx)) / 255) * 2 - 1)
             [0..<1536])"


text \<open>The scaling of one digest byte into \<open>[-1, 1]\<close>, as the loop body computes it.\<close>

definition scaled :: "byte \<Rightarrow> real" where
  "scaled b = real (unat b) / 255 * 2 - 1"

section \<open>Vector index service: the index\<close>

text \<open>
  The similarity index is an external library.  Its interface is modelled as a list of
  entries: \<open>count\<close> is the number of entries, \<open>add\<close> appends, \<open>get\<close> and \<open>delete\<close>
  select by metadata or id, and \<open>query\<close> keeps the entries matching the \<open>where\<close>
  filter, ranks them by cosine distance to the query vector (nearest first), and returns
  at most \<open>n_results\<close> of them; it rejects a non-positive \<open>n_results\<close>.
  Metadata is a dictionary, kept as an association list.
\<close>

datatype meta_value = MInt int | MStr string

type_synonym metadata = "(string \<times> meta_value) list"

record entry =
  entry_id :: string
  entry_document :: string
  entry_embedding :: embedding
  entry_metadata :: metadata

type_synonym collection = "entry list"

definition dot :: "embedding \<Rightarrow> embedding \<Rightarrow> real" where
  "dot u v = sum_list (map2 (*) u v)"

definition cosine_distance :: "embedding \<Rightarrow> embedding \<Rightarrow> real" where
  "cosine_distance u v = 1 - dot u v / (sqrt (dot u u) * sqrt (dot v v))"

definition matches_where :: "string \<times> meta_value \<Rightarrow> entry \<Rightarrow> bool" where
  "matches_where wh e = (map_of (entry_metadata e) (fst wh) = Some (snd wh))"

record query_result =
  ids :: "string list list"
  res_documents :: "string list list"
  metadatas :: "metadata list list"
  distances :: "real list list"

definition collection_query ::
  "collection \<Rightarrow> embedding \<Rightarrow> int \<Rightarrow> string \<times> meta_value \<Rightarrow> exn + query_result" where
  "collection_query coll query_embedding n_results wh =
     (if n_results \<le> 0
      then Inl (Exception ''Number of requested results cannot be negative, or zero.'')
      else
        let ranked = sort_key (\<lambda>e. cosine_distance query_embedding (entry_embedding e))
                       (filter (matches_where wh) coll);
            found = take (nat n_results) ranked
        in Inr \<lparr> ids = [map entry_id found],
                 res_documents = [map entry_document found],
                 metadatas = [map entry_metadata found],
                 distances =
                   [map (\<lambda>e. cosine_distance query_embedding (entry_embedding e)) found] \<rparr>)"



section \<open>Vector index service: operations\<close>

text \<open>
  The embedding client (\<open>OpenAIEmbeddings\<close>) is a remote call that may fail; it is a
  pair of functions.  \<open>None\<close> is the mock mode.
\<close>

record embedder =
  embed_documents :: "string list \<Rightarrow> exn + embedding list"
  embed_query :: "string \<Rightarrow> exn + embedding"

record VectorStoreService =
  vs_collection :: collection
  vs_embeddings :: "embedder option"

text \<open>Decimal rendering of integers, for the ids and messages built with f-strings.\<close>

definition digit_char :: "nat \<Rightarrow> char" where
  "digit_char d = ''0123456789'' ! (d mod 10)"

fun str_nat :: "nat \<Rightarrow> string" where
  "str_nat n = (if n < 10 then [digit_char n] else str_nat (n div 10) @ [digit_char (n mod 10)])"

declare str_nat.simps [simp del]

definition str_int :: "int \<Rightarrow> string" where
  "str_int i = (if i < 0 then ''-'' @ str_nat (nat (- i)) else str_nat (nat i))"

definition chunk_entry ::
  "int \<Rightarrow> string \<Rightarrow> int \<Rightarrow> string \<Rightarrow> nat \<times> string \<times> embedding \<Rightarrow> entry" where
  "chunk_entry document_id document_name user_id now ice =
     (case ice of (i, chunk, emb) \<Rightarrow>
        \<lparr> entry_id = ''doc_'' @ str_int document_id @ ''_chunk_'' @ str_nat i,
          entry_document = chunk,
          entry_embedding = emb,
          entry_metadata =
            [(''document_id'', MInt document_id),
             (''document_name'', MStr document_name),
             (''user_id'', MInt user_id),
             (''chunk_index'', MInt (int i)),
             (''created_at'', MStr now)] \<rparr>)"


record hit =
  hit_id :: string
  hit_content :: string
  hit_metadata :: metadata
  hit_relevance_score :: real

text \<open>The hit reported for an index entry, given the query vector.\<close>

definition hit_of :: "embedding \<Rightarrow> entry \<Rightarrow> hit" where
  "hit_of q e =
     \<lparr> hit_id = entry_id e, hit_content = entry_document e, hit_metadata = entry_metadata e,
       hit_relevance_score = py_round (1 - cosine_distance q (entry_embedding e)) 4 \<rparr>"

definition index :: "'a list \<Rightarrow> nat \<Rightarrow> exn + 'a" where
  "index xs i = (if i < length xs then Inr (xs ! i) else Inl (Exception ''list index out of range''))"

text \<open>One iteration of the formatting loop of \<open>search\<close>, for position \<open>i\<close>.\<close>

definition format_hit :: "query_result \<Rightarrow> nat \<Rightarrow> string \<Rightarrow> exn + hit" where
  "format_hit results i doc_id =
     (case (if distances results \<noteq> []
            then (case index (distances results) 0 of Inl e \<Rightarrow> Inl e | Inr ds \<Rightarrow> index ds i)
            else Inr 0) of
        Inl e \<Rightarrow> Inl e
      | Inr distance \<Rightarrow>
          let similarity = 1 - distance
          in (case (if res_documents results \<noteq> []
                    then (case index (res_documents results) 0 of
                            Inl e \<Rightarrow> Inl e | Inr ds \<Rightarrow> index ds i)
                    else Inr []) of
                Inl e \<Rightarrow> Inl e
              | Inr doc \<Rightarrow>
                  (case (if metadatas results \<noteq> []
                         then (case index (metadatas results) 0 of
                                 Inl e \<Rightarrow> Inl e | Inr ms \<Rightarrow> index ms i)
                         else Inr []) of
                     Inl e \<Rightarrow> Inl e
                   | Inr md \<Rightarrow>
                       Inr \<lparr> hit_id = doc_id,
                             hit_content = doc,
                             hit_metadata = md,
                             hit_relevance_score = py_round similarity 4 \<rparr>)))"

fun format_loop :: "query_result \<Rightarrow> (nat \<times> string) list \<Rightarrow> hit list \<Rightarrow> exn + hit list" where
  "format_loop results [] formatted_results = Inr formatted_results"
| "format_loop results ((i, doc_id) # rest) formatted_results =
     (case format_hit results i doc_id of
        Inl e \<Rightarrow> Inl e
      | Inr h \<Rightarrow> format_loop results rest (formatted_results @ [h]))"

definition actual_n_results :: "int \<Rightarrow> int \<Rightarrow> int" where
  "actual_n_results n_results total_count =
     (if total_count > 0 then min n_results total_count else 1)"

text \<open>
  The body of the \<open>try\<close> block of \<open>search\<close>, the count it requests from the index, and
  \<open>search\<close> itself, which turns every exception into the empty list.
\<close>

definition search_try ::
  "(string \<Rightarrow> digest) \<Rightarrow> VectorStoreService \<Rightarrow> string \<Rightarrow> int \<Rightarrow> int \<Rightarrow> exn + hit list" where
  "search_try sha256 self query user_id n_results =
     (case (case vs_embeddings self of
              Some e \<Rightarrow> embed_query e query
            | None \<Rightarrow> Inr (get_mock_embedding sha256 query)) of
        Inl e \<Rightarrow> Inl e
      | Inr query_embedding \<Rightarrow>
          let total_count = int (length (vs_collection self));
              n = actual_n_results n_results total_count
          in (case collection_query (vs_collection self) query_embedding n
                     (''user_id'', MInt user_id) of
                Inl e \<Rightarrow> Inl e
              | Inr results \<Rightarrow>
                  if ids results \<noteq> [] \<and> hd (ids results) \<noteq> []
                  then format_loop results (enumerate 0 (hd (ids results))) []
                  else Inr []))"

definition search ::
  "(string \<Rightarrow> digest) \<Rightarrow> VectorStoreService \<Rightarrow> string \<Rightarrow> int \<Rightarrow> int \<Rightarrow> hit list" where
  "search sha256 self query user_id n_results =
     (case search_try sha256 self query user_id n_results of
        Inl e \<Rightarrow> []
      | Inr formatted_results \<Rightarrow> formatted_results)"


section \<open>Answer generation service: answering (app/services/llm_service.py)\<close>

record SourceDocument =
  content :: string
  document_name :: string
  chunk_index :: int
  relevance_score :: real

record answer_result =
  answer :: string
  sources :: "SourceDocument list"
  processing_time :: real
  question :: string

definition SYSTEM_PROMPT_format :: "string \<Rightarrow> string" where
  "SYSTEM_PROMPT_format context =
     ''You are a helpful AI knowledge assistant. Your role is to answer questions based on the provided context from uploaded documents.''
     @ [CHR 0x0A, CHR 0x0A] @ ''IMPORTANT INSTRUCTIONS:'' @ [CHR 0x0A]
     @ ''1. Only use information from the provided context to answer questions.'' @ [CHR 0x0A]
     @ ''2. If the context doesn't contain relevant information, say so clearly.'' @ [CHR 0x0A]
     @ ''3. Be concise but comprehensive in your answers.'' @ [CHR 0x0A]
     @ ''4. When referencing information, mention which document it came from.'' @ [CHR 0x0A]
     @ ''5. If you're uncertain about something, acknowledge the uncertainty.''
     @ [CHR 0x0A, CHR 0x0A] @ ''CONTEXT FROM DOCUMENTS:'' @ [CHR 0x0A]
     @ context
     @ [CHR 0x0A, CHR 0x0A] @ ''---'' @ [CHR 0x0A, CHR 0x0A]
     @ ''Please answer the user's question based on the above context. If the context doesn't contain relevant information, let the user know and suggest they upload more relevant documents.''"

definition get_mock_response :: "string \<Rightarrow> string \<Rightarrow> string" where
  "get_mock_response question' context =
     (if strip context = []
      then ''I don't have any relevant information in the uploaded documents to answer your question. Please upload documents that contain information related to your query.''
      else
        ''Based on the uploaded documents, I found relevant information to answer your question.''
        @ [CHR 0x0A, CHR 0x0A] @ ''**Summary:**'' @ [CHR 0x0A]
        @ ''The documents contain information that may be relevant to your query about ''
        @ [CHR 0x22] @ take 50 question' @ ''...'' @ [CHR 0x22] @ ''. ''
        @ [CHR 0x0A, CHR 0x0A] @ ''**Key Points from Documents:**'' @ [CHR 0x0A]
        @ take 500 context @ ''...''
        @ [CHR 0x0A, CHR 0x0A]
        @ ''**Note:** This is a mock response. Connect an OpenAI API key for intelligent answers based on document content.'')"

fun str_meta :: "meta_value \<Rightarrow> string" where
  "str_meta (MInt i) = str_int i"
| "str_meta (MStr s) = s"

text \<open>\<open>f"{score:.2%}"\<close>: the score times 100, with two decimals and a percent sign.\<close>

definition format_percent :: "real \<Rightarrow> string" where
  "format_percent score =
     (let n = round_half_even (score * 10000);
          m = nat \<bar>n\<bar>
      in (if n < 0 then ''-'' else '''')
         @ str_nat (m div 100) @ ''.''
         @ [digit_char ((m mod 100) div 10), digit_char (m mod 10)] @ ''%'')"

fun join :: "string \<Rightarrow> string list \<Rightarrow> string" where
  "join sep [] = []"
| "join sep [x] = x"
| "join sep (x # y # ys) = x @ sep @ join sep (y # ys)"

definition format_source :: "nat \<times> hit \<Rightarrow> string" where
  "format_source ir =
     (case ir of (i, result) \<Rightarrow>
        let doc_name = (case map_of (hit_metadata result) ''document_name'' of
                          None \<Rightarrow> ''Unknown''
                        | Some v \<Rightarrow> str_meta v);
            content = hit_content result;
            score = hit_relevance_score result
        in ''[Source '' @ str_nat i @ '': '' @ doc_name @ '' (Relevance: ''
           @ format_percent score @ '')]'' @ [CHR 0x0A] @ content)"

definition format_context :: "hit list \<Rightarrow> string" where
  "format_context search_results =
     (if search_results = [] then []
      else join ([CHR 0x0A, CHR 0x0A] @ ''---'' @ [CHR 0x0A, CHR 0x0A])
             (map format_source (enumerate 1 search_results)))"

text \<open>
  Building one \<open>SourceDocument\<close>; the schema validation rejects a metadata value of
  the wrong type.
\<close>

definition make_source :: "hit \<Rightarrow> exn + SourceDocument" where
  "make_source result =
     (let metadata = hit_metadata result
      in case (case map_of metadata ''document_name'' of
                 None \<Rightarrow> Inr ''Unknown''
               | Some (MStr s) \<Rightarrow> Inr s
               | Some (MInt _) \<Rightarrow> Inl (Exception ''document_name: Input should be a valid string'')) of
           Inl e \<Rightarrow> Inl e
         | Inr name \<Rightarrow>
             (case (case map_of metadata ''chunk_index'' of
                      None \<Rightarrow> Inr 0
                    | Some (MInt i) \<Rightarrow> Inr i
                    | Some (MStr _) \<Rightarrow> Inl (Exception ''chunk_index: Input should be a valid integer'')) of
                Inl e \<Rightarrow> Inl e
              | Inr idx \<Rightarrow>
                  Inr \<lparr> content = take 500 (hit_content result),
                        document_name = name,
                        chunk_index = idx,
                        relevance_score = hit_relevance_score result \<rparr>))"

fun make_sources :: "hit list \<Rightarrow> SourceDocument list \<Rightarrow> exn + SourceDocument list" where
  "make_sources [] sources' = Inr sources'"
| "make_sources (result # rest) sources' =
     (case make_source result of
        Inl e \<Rightarrow> Inl e
      | Inr s \<Rightarrow> make_sources rest (sources' @ [s]))"

text \<open>
  The two collaborators of \<open>answer_question\<close>: the retrieval call
  (\<open>vector_store_service.search\<close>) and the chat model's \<open>invoke\<close>, each of which may
  raise.  \<open>time.time()\<close> is read once before the \<open>try\<close> block (\<open>start_time\<close>) and once
  when the block has finished or failed (\<open>end_time\<close>).
\<close>

record collaborators =
  retrieve :: "string \<Rightarrow> int \<Rightarrow> int \<Rightarrow> exn + hit list"
  invoke :: "llm_client \<Rightarrow> string \<Rightarrow> string \<Rightarrow> exn + string"

definition answer_question_try ::
  "collaborators \<Rightarrow> LLMService \<Rightarrow> string \<Rightarrow> int \<Rightarrow> int \<Rightarrow> real \<Rightarrow> real \<Rightarrow> exn + answer_result" where
  "answer_question_try deps self question' user_id n_sources start_time end_time =
     (case retrieve deps question' user_id n_sources of
        Inl e \<Rightarrow> Inl e
      | Inr search_results \<Rightarrow>
          let context = format_context search_results
          in (case (case llm self of
                      Some client \<Rightarrow> invoke deps client (SYSTEM_PROMPT_format context) question'
                    | None \<Rightarrow> Inr (get_mock_response question' context)) of
                Inl e \<Rightarrow> Inl e
              | Inr answer' \<Rightarrow>
                  (case make_sources search_results [] of
                     Inl e \<Rightarrow> Inl e
                   | Inr sources' \<Rightarrow>
                       Inr \<lparr> answer = answer',
                             sources = sources',
                             processing_time = py_round (end_time - start_time) 3,
                             question = question' \<rparr>)))"

definition answer_question ::
  "Settings \<Rightarrow> collaborators \<Rightarrow> LLMService \<Rightarrow> string \<Rightarrow> int \<Rightarrow> int \<Rightarrow> real \<Rightarrow> real
     \<Rightarrow> answer_result \<times> LLMService" where
  "answer_question settings deps self0 question' user_id n_sources start_time end_time =
     (let self = ensure_initialized settings self0
      in case answer_question_try deps self question' user_id n_sources start_time end_time of
           Inr result \<Rightarrow> (result, self)
         | Inl e \<Rightarrow>
             (\<lparr> answer = ''I encountered an error while processing your question: ''
                          @ str_exn e @ ''. Please try again.'',
                sources = [],
                processing_time = py_round (end_time - start_time) 3,
                question = question' \<rparr>, self))"

section \<open>Persistence models (app/models)\<close>

datatype DocumentStatus = PENDING | PROCESSING | COMPLETED | FAILED

record Document =
  doc_id :: int
  filename :: string
  original_filename :: string
  file_path :: string
  file_type :: string
  file_size :: int
  status :: DocumentStatus
  chunk_count :: int
  embedding_count :: int
  content_preview :: "string option"
  error_message :: "string option"
  created_at :: nat
  processed_at :: "nat option"
  user_id :: int


datatype http_error = HTTPException nat string

section \<open>Chat routes (app/api/routes/chat.py)\<close>








section \<open>Document routes and background ingestion (app/api/routes/documents.py)\<close>

text \<open>
  What the process takes from outside: the digest function, the generated file names,
  the text decoder, the PDF reader, the text splitter and the rendering of a time stamp.
\<close>

record environment =
  sha256 :: "string \<Rightarrow> digest"
  uuid4_hex :: "nat \<Rightarrow> string"
  decode_utf8 :: "byte list \<Rightarrow> string"
  pdf_pages :: "byte list \<Rightarrow> exn + string list"
  text_splitter :: "string \<Rightarrow> string list"
  isoformat :: "nat \<Rightarrow> string"

record app_state =
  db_documents :: "Document list"
  next_document_id :: int
  disk :: storage
  vector_store :: VectorStoreService
  uuid_count :: nat

record task =
  task_document_id :: int
  task_file_path :: string
  task_file_type :: string
  task_user_id :: int
  task_document_name :: string





definition get_document :: "app_state \<Rightarrow> int \<Rightarrow> Document option" where
  "get_document st document_id = find (\<lambda>d. doc_id d = document_id) (db_documents st)"




record UploadFile =
  upload_filename :: "string option"
  upload_content :: "byte list"

record DocumentResponse =
  dr_id :: int
  dr_filename :: string
  dr_file_type :: string
  dr_file_size :: int
  dr_status :: string
  dr_chunk_count :: int
  dr_embedding_count :: int
  dr_content_preview :: "string option"
  dr_created_at :: nat
  dr_processed_at :: "nat option"
  dr_error_message :: "string option"

fun status_value :: "DocumentStatus \<Rightarrow> string" where
  "status_value PENDING = ''pending''"
| "status_value PROCESSING = ''processing''"
| "status_value COMPLETED = ''completed''"
| "status_value FAILED = ''failed''"

definition model_validate :: "Document \<Rightarrow> DocumentResponse" where
  "model_validate d =
     \<lparr> dr_id = doc_id d,
       dr_filename = filename d,
       dr_file_type = file_type d,
       dr_file_size = file_size d,
       dr_status = status_value (status d),
       dr_chunk_count = chunk_count d,
       dr_embedding_count = embedding_count d,
       dr_content_preview = content_preview d,
       dr_created_at = created_at d,
       dr_processed_at = processed_at d,
       dr_error_message = error_message d \<rparr>"

record UploadResponse =
  message :: string
  documents :: "DocumentResponse list"
  total_uploaded :: nat
  successful :: nat
  failed :: nat

record upload_progress =
  up_state :: app_state
  up_tasks :: "task list"
  uploaded_documents :: "DocumentResponse list"
  up_successful :: nat
  up_failed :: nat

text \<open>
  One iteration of the upload loop.  A file without a name makes \<open>Path(file.filename)\<close>
  raise inside the \<open>try\<close> block, which counts it as failed.
\<close>

definition upload_one ::
  "Settings \<Rightarrow> environment \<Rightarrow> nat \<Rightarrow> int \<Rightarrow> upload_progress \<Rightarrow> UploadFile \<Rightarrow> upload_progress" where
  "upload_one settings env now current_user p file =
     (case upload_filename file of
        None \<Rightarrow> p\<lparr> up_failed := up_failed p + 1 \<rparr>
      | Some name \<Rightarrow>
          let content' = upload_content file;
              file_ext = lower (path_suffix name);
              st = up_state p
          in case validate_file settings name (int (length content')) of
               (is_valid, error_msg) \<Rightarrow>
                 if \<not> is_valid then p\<lparr> up_failed := up_failed p + 1 \<rparr>
                 else
                   case save_file settings (uuid4_hex env (uuid_count st)) (disk st) content' name of
                     ((unique_filename, path), disk') \<Rightarrow>
                       let document =
                             \<lparr> doc_id = next_document_id st,
                               filename = unique_filename,
                               original_filename = name,
                               file_path = path,
                               file_type = file_ext,
                               file_size = int (length content'),
                               status = PENDING,
                               chunk_count = 0,
                               embedding_count = 0,
                               content_preview = None,
                               error_message = None,
                               created_at = now,
                               processed_at = None,
                               user_id = current_user \<rparr>
                       in p\<lparr> up_state :=
                               st\<lparr> db_documents := db_documents st @ [document],
                                   next_document_id := next_document_id st + 1,
                                   disk := disk',
                                   uuid_count := uuid_count st + 1 \<rparr>,
                             up_tasks :=
                               up_tasks p @
                               [\<lparr> task_document_id = doc_id document,
                                  task_file_path = path,
                                  task_file_type = file_ext,
                                  task_user_id = current_user,
                                  task_document_name = name \<rparr>],
                             uploaded_documents := uploaded_documents p @ [model_validate document],
                             up_successful := up_successful p + 1 \<rparr>)"

fun upload_loop ::
  "Settings \<Rightarrow> environment \<Rightarrow> nat \<Rightarrow> int \<Rightarrow> upload_progress \<Rightarrow> UploadFile list \<Rightarrow> upload_progress" where
  "upload_loop settings env now current_user p [] = p"
| "upload_loop settings env now current_user p (file # files) =
     upload_loop settings env now current_user (upload_one settings env now current_user p file) files"

definition upload_documents ::
  "Settings \<Rightarrow> environment \<Rightarrow> nat \<Rightarrow> int \<Rightarrow> app_state \<Rightarrow> UploadFile list
     \<Rightarrow> http_error + (UploadResponse \<times> app_state \<times> task list)" where
  "upload_documents settings env now current_user st files =
     (if files = [] then Inl (HTTPException 400 ''No files provided'')
      else
        let p = upload_loop settings env now current_user
                  \<lparr> up_state = st, up_tasks = [], uploaded_documents = [],
                    up_successful = 0, up_failed = 0 \<rparr> files
        in Inr (\<lparr> message = ''Upload completed: '' @ str_nat (up_successful p)
                             @ '' successful, '' @ str_nat (up_failed p) @ '' failed'',
                   documents = uploaded_documents p,
                   total_uploaded = length files,
                   successful = up_successful p,
                   failed = up_failed p \<rparr>,
                up_state p, up_tasks p))"




section \<open>Serving requests\<close>

text \<open>
  Requests are served one at a time; the background tasks a request schedules run, in
  order, after its handler has returned.  Serving a request yields the database states
  committed on the way: the state the handler leaves, then the states each task commits.
\<close>

datatype request =
    Upload int nat "UploadFile list"
  | Reprocess int nat int
  | Delete int int






section \<open>The preference order of the specification\<close>

text \<open>
  The order in which the specification says the backend is chosen, written down from
  its words; the provider name is read as the service reads it, in lower case.
\<close>

definition preferred_backend :: "Settings \<Rightarrow> backend" where
  "preferred_backend settings =
     (let configured = lower (LLM_PROVIDER settings);
          anthropic_key_present = (ANTHROPIC_API_KEY settings \<noteq> '''');
          openai_key_present = (OPENAI_API_KEY settings \<noteq> '''')
      in if configured = ''anthropic'' \<and> anthropic_key_present then Anthropic
         else if configured = ''openai'' \<and> openai_key_present then OpenAI
         else if anthropic_key_present then Anthropic
         else if openai_key_present then OpenAI
         else NoBackend)"

section \<open>A sample database\<close>

text \<open>
  A document of user 7 that has been ingested once (two chunks in the index), and the
  state holding it; used to run the operations on concrete data.
\<close>

definition sample_document :: Document where
  "sample_document =
     \<lparr> doc_id = 1,
       filename = ''0af3.txt'',
       original_filename = ''notes.txt'',
       file_path = ''./uploads/0af3.txt'',
       file_type = ''.txt'',
       file_size = 11,
       status = COMPLETED,
       chunk_count = 2,
       embedding_count = 2,
       content_preview = Some ''hello world'',
       error_message = None,
       created_at = 100,
       processed_at = Some 101,
       user_id = 7 \<rparr>"

definition sample_entry :: "nat \<Rightarrow> string \<Rightarrow> embedding \<Rightarrow> entry" where
  "sample_entry i chunk emb = chunk_entry 1 ''notes.txt'' 7 ''t101'' (i, chunk, emb)"

definition sample_state :: app_state where
  "sample_state =
     \<lparr> db_documents = [sample_document],
       next_document_id = 2,
       disk = [''./uploads/0af3.txt'' \<mapsto> [104, 101, 108, 108, 111, 32, 119, 111, 114, 108, 100]],
       vector_store =
         \<lparr> vs_collection = [sample_entry 0 ''hello'' [1, 0], sample_entry 1 ''world'' [0, 1]],
           vs_embeddings = None \<rparr>,
       uuid_count = 1 \<rparr>"


definition retrieval_raising :: collaborators where
  "retrieval_raising =
     \<lparr> retrieve = (\<lambda>query user n. Inl (Exception ''index unavailable'')),
       invoke = (\<lambda>client system_prompt human. Inl (Exception ''connection refused'')) \<rparr>"


section \<open>The result count of the specification, and an index in mock mode\<close>


text \<open>
  The SHA-256 digests of the chunk \<open>This is a test document with some content.\<close>
  (\<open>b630e212\<dots>8b50114d\<close>) and of the question \<open>What is in my documents?\<close>
  (\<open>39808074\<dots>9cf6f9df\<close>), the texts of the repository's own tests.  The digest
  function below is used on these two texts only.
\<close>

definition chunk_digest :: "byte list" where
  "chunk_digest =
     [182, 48, 226, 18, 194, 245, 136, 195, 214, 102, 127, 109, 235, 205, 103, 129,
      108, 113, 56, 254, 55, 24, 190, 5, 245, 184, 87, 154, 139, 80, 17, 77]"

definition question_digest :: "byte list" where
  "question_digest =
     [57, 128, 128, 116, 93, 158, 127, 42, 82, 209, 151, 42, 207, 166, 75, 66,
      241, 68, 232, 236, 91, 127, 40, 198, 249, 188, 113, 151, 156, 246, 249, 223]"

definition sample_sha256 :: "string \<Rightarrow> digest" where
  "sample_sha256 text =
     (if text = ''This is a test document with some content.'' then Abs_digest chunk_digest
      else Abs_digest question_digest)"

text \<open>
  The index after the test document of user 7 has been ingested in mock mode: one chunk.
\<close>

definition sample_mock_store :: VectorStoreService where
  "sample_mock_store =
     \<lparr> vs_collection =
         [chunk_entry 1 ''test.txt'' 7 ''t101''
            (0, ''This is a test document with some content.'',
             get_mock_embedding sample_sha256 ''This is a test document with some content.'')],
       vs_embeddings = None \<rparr>"

section \<open>What an upload creates\<close>

text \<open>
  A submitted file is accepted when it has a name and passes validation.  For an accepted
  file, the row that the upload adds in a given state, and the task scheduled for a row.
\<close>

definition accepted :: "Settings \<Rightarrow> UploadFile \<Rightarrow> bool" where
  "accepted settings file =
     (case upload_filename file of
        None \<Rightarrow> False
      | Some name \<Rightarrow> fst (validate_file settings name (int (length (upload_content file)))))"

definition created_document ::
  "Settings \<Rightarrow> environment \<Rightarrow> nat \<Rightarrow> int \<Rightarrow> app_state \<Rightarrow> UploadFile \<Rightarrow> Document" where
  "created_document settings env now current_user st file =
     (let name = the (upload_filename file);
          saved = fst (save_file settings (uuid4_hex env (uuid_count st)) (disk st)
                         (upload_content file) name)
      in \<lparr> doc_id = next_document_id st,
           filename = fst saved,
           original_filename = name,
           file_path = snd saved,
           file_type = lower (path_suffix name),
           file_size = int (length (upload_content file)),
           status = PENDING,
           chunk_count = 0,
           embedding_count = 0,
           content_preview = None,
           error_message = None,
           created_at = now,
           processed_at = None,
           user_id = current_user \<rparr>)"

definition scheduled_task :: "int \<Rightarrow> Document \<Rightarrow> task" where
  "scheduled_task current_user d =
     \<lparr> task_document_id = doc_id d,
       task_file_path = file_path d,
       task_file_type = file_type d,
       task_user_id = current_user,
       task_document_name = original_filename d \<rparr>"

text \<open>
  An environment and three submitted files for running the document routes on concrete
  data: a text file, a text file holding white space only, and a file with an extension
  that is not allowed.  The decoder is the one for ASCII bytes.
\<close>

definition sample_environment :: environment where
  "sample_environment =
     \<lparr> sha256 = sample_sha256,
       uuid4_hex = (\<lambda>k. ''0af3'' @ str_nat k),
       decode_utf8 = map (\<lambda>b. char_of (unat b)),
       pdf_pages = (\<lambda>bytes. Inl (Exception ''not a PDF file'')),
       text_splitter = (\<lambda>text. [text]),
       isoformat = (\<lambda>t. ''t'' @ str_nat t) \<rparr>"

definition sample_txt_upload :: UploadFile where
  "sample_txt_upload = \<lparr> upload_filename = Some ''test.txt'', upload_content = [84, 101, 115, 116] \<rparr>"


definition sample_docx_upload :: UploadFile where
  "sample_docx_upload = \<lparr> upload_filename = Some ''test.docx'', upload_content = [80, 75] \<rparr>"



section \<open>The document life cycle\<close>









section \<open>Rounding and cosine distance\<close>
lemma round_half_even_bounds: "\<lfloor>x\<rfloor> \<le> round_half_even x \<and> round_half_even x \<le> \<lfloor>x\<rfloor> + 1"
  by (simp add: round_half_even_def Let_def)

lemma round_half_even_mono:
  assumes "x \<le> y" shows "round_half_even x \<le> round_half_even y"
proof (cases "\<lfloor>x\<rfloor> = \<lfloor>y\<rfloor>")
  case True
  then have "x - of_int \<lfloor>x\<rfloor> \<le> y - of_int \<lfloor>y\<rfloor>" using assms by simp
  then show ?thesis using True
    by (auto simp add: round_half_even_def Let_def)
next
  case False
  then have "\<lfloor>x\<rfloor> < \<lfloor>y\<rfloor>" using assms floor_mono [of x y] by linarith
  then show ?thesis
    using round_half_even_bounds [of x] round_half_even_bounds [of y] by linarith
qed

lemma round_half_even_of_int: "round_half_even (of_int n) = n"
  by (simp add: round_half_even_def)

lemma py_round_mono:
  assumes "x \<le> y" shows "py_round x n \<le> py_round y n"
proof -
  have "x * 10 ^ n \<le> y * 10 ^ n" using assms by (simp add: mult_right_mono)
  then have "round_half_even (x * 10 ^ n) \<le> round_half_even (y * 10 ^ n)"
    by (rule round_half_even_mono)
  then show ?thesis unfolding py_round_def by (simp add: divide_right_mono)
qed

lemma py_round_int: "py_round (of_int k) n = of_int k"
proof -
  have "(of_int k :: real) * 10 ^ n = of_int (k * 10 ^ n)" by simp
  then show ?thesis unfolding py_round_def
    by (simp only: round_half_even_of_int) simp
qed

lemma dot_self_nonneg: "0 \<le> dot u u"
  unfolding dot_def by (induction u) auto

lemma quad_nonneg: "0 \<le> dot u u * t\<^sup>2 + 2 * dot u v * t + dot v v"
proof (induction u arbitrary: v)
  case Nil
  then show ?case using dot_self_nonneg [of v] by (simp add: dot_def)
next
  case (Cons x u)
  show ?case
  proof (cases v)
    case Nil
    then show ?thesis using dot_self_nonneg [of "x # u"] by (simp add: dot_def)
  next
    case (Cons y w)
    have "0 \<le> (x * t + y)\<^sup>2" by simp
    moreover have "0 \<le> dot u u * t\<^sup>2 + 2 * dot u w * t + dot w w" by (rule Cons.IH)
    ultimately have "0 \<le> (x * t + y)\<^sup>2 + (dot u u * t\<^sup>2 + 2 * dot u w * t + dot w w)" by linarith
    moreover have "(x * t + y)\<^sup>2 + (dot u u * t\<^sup>2 + 2 * dot u w * t + dot w w)
        = dot (x # u) (x # u) * t\<^sup>2 + 2 * dot (x # u) (y # w) * t + dot (y # w) (y # w)"
      by (simp add: dot_def power2_eq_square algebra_simps)
    ultimately show ?thesis using Cons by simp
  qed
qed

lemma cauchy_schwarz: "(dot u v)\<^sup>2 \<le> dot u u * dot v v"
proof (cases "dot u u = 0")
  case True
  have "dot u v = 0"
  proof (rule ccontr)
    assume q: "dot u v \<noteq> 0"
    have "0 \<le> dot u u * (- (dot v v + 1) / (2 * dot u v))\<^sup>2 + 2 * dot u v * (- (dot v v + 1) / (2 * dot u v)) + dot v v"
      by (rule quad_nonneg)
    then show False using True q by simp
  qed
  then show ?thesis using True by simp
next
  case False
  then have p: "0 < dot u u" using dot_self_nonneg [of u] by linarith
  have "0 \<le> dot u u * (- dot u v / dot u u)\<^sup>2 + 2 * dot u v * (- dot u v / dot u u) + dot v v"
    by (rule quad_nonneg)
  also have "\<dots> = dot v v - (dot u v)\<^sup>2 / dot u u"
    using p by (simp add: power2_eq_square field_simps)
  finally have "(dot u v)\<^sup>2 / dot u u \<le> dot v v" by simp
  then show ?thesis using p by (simp add: field_simps)
qed

lemma cosine_distance_range: "0 \<le> cosine_distance u v \<and> cosine_distance u v \<le> 2"
proof -
  let ?d = "sqrt (dot u u) * sqrt (dot v v)"
  have "\<bar>dot u v\<bar> = sqrt ((dot u v)\<^sup>2)" by simp
  also have "\<dots> \<le> sqrt (dot u u * dot v v)"
    using cauchy_schwarz by (simp only: real_sqrt_le_iff)
  also have "\<dots> = ?d" by (simp add: real_sqrt_mult)
  finally have le: "\<bar>dot u v\<bar> \<le> ?d" .
  have d0: "0 \<le> ?d" by (simp add: dot_self_nonneg)
  have "\<bar>dot u v / ?d\<bar> \<le> 1"
  proof (cases "?d = 0")
    case True show ?thesis unfolding True by simp
  next
    case False
    then have "0 < ?d" using d0 by linarith
    then show ?thesis using le by (simp add: field_simps)
  qed
  then have "- 1 \<le> dot u v / ?d \<and> dot u v / ?d \<le> 1" by (auto simp only: abs_le_iff)
  then show ?thesis unfolding cosine_distance_def by linarith
qed

section \<open>Backend selection\<close>

text \<open>
  Claim C7.  On first use the answer generation service selects its backend in the
  preference order of the specification: Anthropic if it is the configured provider and
  its key is present; else OpenAI if it is the configured provider and its key is
  present; else Anthropic if an Anthropic key is present; else OpenAI if an OpenAI key is
  present; else no backend (mock mode).  The selection is made once: a later call leaves
  the service as it is.
\<close>

theorem backend_preference_order:
  "\<not> initialized self \<Longrightarrow>
     backend_of (llm (ensure_initialized settings self)) = preferred_backend settings
     \<and> initialized (ensure_initialized settings self)
     \<and> ensure_initialized settings' (ensure_initialized settings self)
         = ensure_initialized settings self"
  by (simp add: ensure_initialized_def preferred_backend_def Let_def)

theorem backend_preference_order_witness:
  "\<not> initialized new_LLMService
   \<and> backend_of (llm (ensure_initialized
        (default_settings\<lparr> LLM_PROVIDER := ''OpenAI'', OPENAI_API_KEY := ''sk-1'',
                           ANTHROPIC_API_KEY := ''ak-1'' \<rparr>) new_LLMService)) = OpenAI
   \<and> backend_of (llm (ensure_initialized
        (default_settings\<lparr> LLM_PROVIDER := ''openai'', ANTHROPIC_API_KEY := ''ak-1'' \<rparr>)
        new_LLMService)) = Anthropic
   \<and> backend_of (llm (ensure_initialized default_settings new_LLMService)) = NoBackend"
  using backend_preference_order [of new_LLMService
          "default_settings\<lparr> LLM_PROVIDER := ''OpenAI'', OPENAI_API_KEY := ''sk-1'',
                             ANTHROPIC_API_KEY := ''ak-1'' \<rparr>"]
        backend_preference_order [of new_LLMService
          "default_settings\<lparr> LLM_PROVIDER := ''openai'', ANTHROPIC_API_KEY := ''ak-1'' \<rparr>"]
        backend_preference_order [of new_LLMService default_settings]
  by (simp add: new_LLMService_def preferred_backend_def default_settings_def lower_def
        lower_char_def)

section \<open>Mock embedding\<close>

lemma get_mock_embedding_nth:
  "i < 1536 \<Longrightarrow>
     get_mock_embedding digest_of text ! i
       = real (unat (Rep_digest (digest_of text) ! (i mod 32))) / 255 * 2 - 1"
proof -
  assume i: "i < 1536"
  have len: "length (Rep_digest (digest_of text)) = 32" using Rep_digest [of "digest_of text"] by simp
  show ?thesis using i by (simp add: get_mock_embedding_def Let_def len del: upt_Suc)
qed

lemma byte_scaled_range: "- 1 \<le> real (unat (b :: byte)) / 255 * 2 - 1 \<and> real (unat b) / 255 * 2 - 1 \<le> 1"
proof -
  define n where "n = unat b"
  have "n < 256" unfolding n_def using unsigned_less [of b, where 'a = nat] by simp
  then have "real n \<le> 255" by simp
  moreover have "0 \<le> real n" by simp
  ultimately have "- 1 \<le> real n / 255 * 2 - 1 \<and> real n / 255 * 2 - 1 \<le> 1" by simp
  then show ?thesis unfolding n_def .
qed

text \<open>
  Claim C6.  The mock embedding is a function of the digest of its text alone: it has
  exactly 1536 components, component \<open>i\<close> is
  \<open>(digest_byte[i mod digest_length] / 255) * 2 - 1\<close>, every component lies in
  \<open>[-1, 1]\<close>, and texts with the same digest (in particular the same text, embedded
  twice) get identical vectors.
\<close>

theorem mock_embedding_deterministic:
  "length (get_mock_embedding digest_of text) = 1536
   \<and> (\<forall>i<1536. get_mock_embedding digest_of text ! i
         = real (unat (Rep_digest (digest_of text) ! (i mod length (Rep_digest (digest_of text))))) / 255 * 2 - 1)
   \<and> (\<forall>x \<in> set (get_mock_embedding digest_of text). - 1 \<le> x \<and> x \<le> 1)
   \<and> (\<forall>text'. digest_of text' = digest_of text
         \<longrightarrow> get_mock_embedding digest_of text' = get_mock_embedding digest_of text)"
proof -
  have len: "length (Rep_digest (digest_of text)) = 32" using Rep_digest [of "digest_of text"] by simp
  have a: "length (get_mock_embedding digest_of text) = 1536"
    by (simp add: get_mock_embedding_def Let_def del: upt_Suc)
  have b: "\<forall>i<1536. get_mock_embedding digest_of text ! i
         = real (unat (Rep_digest (digest_of text) ! (i mod length (Rep_digest (digest_of text))))) / 255 * 2 - 1"
    using get_mock_embedding_nth len by simp
  have c: "\<forall>x \<in> set (get_mock_embedding digest_of text). - 1 \<le> x \<and> x \<le> 1"
    unfolding get_mock_embedding_def Let_def using byte_scaled_range by (auto simp del: upt_Suc)
  have d: "\<forall>text'. digest_of text' = digest_of text
         \<longrightarrow> get_mock_embedding digest_of text' = get_mock_embedding digest_of text"
    by (simp add: get_mock_embedding_def)
  show ?thesis using a b c d by blast
qed

theorem mock_embedding_deterministic_witness:
  "length (get_mock_embedding (\<lambda>t. Abs_digest (map of_nat [0..<32])) ''hello'') = 1536
   \<and> get_mock_embedding (\<lambda>t. Abs_digest (map of_nat [0..<32])) ''hello'' ! 40 = 16 / 255 - 1
   \<and> get_mock_embedding (\<lambda>t. Abs_digest (map of_nat [0..<32])) ''hello'' ! 0 = - 1"
proof -
  have r: "Rep_digest (Abs_digest (map of_nat [0..<32])) = map of_nat [0..<32]"
    by (rule Abs_digest_inverse) simp
  have l: "length (Rep_digest (Abs_digest (map of_nat [0..<32]))) = 32"
    using Rep_digest [of "Abs_digest (map of_nat [0..<32])"] by simp
  have n8: "Rep_digest (Abs_digest (map of_nat [0..<32])) ! 8 = (8 :: byte)"
    unfolding r by (simp del: upt_Suc)
  have n0: "Rep_digest (Abs_digest (map of_nat [0..<32])) ! 0 = (0 :: byte)"
    unfolding r by (simp del: upt_Suc)
  from mock_embedding_deterministic [of "\<lambda>t. Abs_digest (map of_nat [0..<32])" "''hello''"]
  have len: "length (get_mock_embedding (\<lambda>t. Abs_digest (map of_nat [0..<32])) ''hello'') = 1536"
    and nth: "\<forall>i<1536. get_mock_embedding (\<lambda>t. Abs_digest (map of_nat [0..<32])) ''hello'' ! i
         = real (unat (Rep_digest (Abs_digest (map of_nat [0..<32]))
              ! (i mod length (Rep_digest (Abs_digest (map of_nat [0..<32])))))) / 255 * 2 - 1"
    by blast+
  from nth have "get_mock_embedding (\<lambda>t. Abs_digest (map of_nat [0..<32])) ''hello'' ! 40
      = real (unat (Rep_digest (Abs_digest (map of_nat [0..<32])) ! (40 mod 32))) / 255 * 2 - 1"
    unfolding l by (simp del: upt_Suc)
  then have a: "get_mock_embedding (\<lambda>t. Abs_digest (map of_nat [0..<32])) ''hello'' ! 40 = 16 / 255 - 1"
    using n8 by simp
  from nth have "get_mock_embedding (\<lambda>t. Abs_digest (map of_nat [0..<32])) ''hello'' ! 0
      = real (unat (Rep_digest (Abs_digest (map of_nat [0..<32])) ! (0 mod 32))) / 255 * 2 - 1"
    unfolding l by (simp del: upt_Suc)
  then have b: "get_mock_embedding (\<lambda>t. Abs_digest (map of_nat [0..<32])) ''hello'' ! 0 = - 1"
    using n0 by simp
  show ?thesis using len a b by simp
qed

section \<open>File validation and storage\<close>

lemma lower_char_idem: "lower_char (lower_char c) = lower_char c"
  by (simp add: lower_char_def)

lemma lower_idem: "lower (lower s) = lower s"
  by (simp add: lower_def lower_char_idem)

text \<open>
  Claim C9.  File validation and storage treat the extension case-insensitively:
  \<open>validate_file\<close> accepts a file exactly when the lower-cased suffix of its name is
  an allowed extension and the size is within the limit, so \<open>FILE.TXT\<close> and
  \<open>doc.PDF\<close> are accepted; \<open>save_file\<close> stores the content under the generated name
  followed by the lower-cased extension.
\<close>

theorem extension_checked_in_lower_case:
  "fst (validate_file settings name sz)
     = (lower (path_suffix name) \<in> set (ALLOWED_EXTENSIONS settings) \<and> sz \<le> MAX_FILE_SIZE settings)
   \<and> (sz \<le> MAX_FILE_SIZE default_settings
        \<longrightarrow> validate_file default_settings ''FILE.TXT'' sz = (True, None)
          \<and> validate_file default_settings ''doc.PDF'' sz = (True, None))
   \<and> (\<exists>ext. fst (fst (save_file settings hex files bytes name)) = hex @ ext
          \<and> ext = lower (path_suffix name) \<and> lower ext = ext)
   \<and> snd (save_file settings hex files bytes name)
         (snd (fst (save_file settings hex files bytes name))) = Some bytes
   \<and> fst (fst (save_file settings hex files bytes ''FILE.TXT'')) = hex @ ''.txt''
   \<and> fst (fst (save_file settings hex files bytes ''doc.PDF'')) = hex @ ''.pdf''"
proof -
  have etxt: "lower (path_suffix ''FILE.TXT'') = ''.txt''"
    by (simp add: lower_def path_suffix_def path_name_def lower_char_def)
  have epdf: "lower (path_suffix ''doc.PDF'') = ''.pdf''"
    by (simp add: lower_def path_suffix_def path_name_def lower_char_def)
  have a: "fst (validate_file settings name sz)
     = (lower (path_suffix name) \<in> set (ALLOWED_EXTENSIONS settings) \<and> sz \<le> MAX_FILE_SIZE settings)"
    by (auto simp add: validate_file_def Let_def)
  have b: "sz \<le> MAX_FILE_SIZE default_settings
        \<longrightarrow> validate_file default_settings ''FILE.TXT'' sz = (True, None)
          \<and> validate_file default_settings ''doc.PDF'' sz = (True, None)"
    unfolding validate_file_def Let_def etxt epdf by (simp add: default_settings_def)
  have c: "\<exists>ext. fst (fst (save_file settings hex files bytes name)) = hex @ ext
          \<and> ext = lower (path_suffix name) \<and> lower ext = ext"
    by (simp add: save_file_def Let_def lower_idem)
  have d: "snd (save_file settings hex files bytes name)
         (snd (fst (save_file settings hex files bytes name))) = Some bytes"
    by (simp add: save_file_def Let_def)
  have e: "fst (fst (save_file settings hex files bytes ''FILE.TXT'')) = hex @ ''.txt''"
    unfolding save_file_def Let_def etxt by simp
  have f: "fst (fst (save_file settings hex files bytes ''doc.PDF'')) = hex @ ''.pdf''"
    unfolding save_file_def Let_def epdf by simp
  show ?thesis using a b c d e f by blast
qed

theorem extension_checked_in_lower_case_witness:
  "(1024 :: int) \<le> MAX_FILE_SIZE default_settings
   \<and> validate_file default_settings ''FILE.TXT'' 1024 = (True, None)
   \<and> validate_file default_settings ''doc.PDF'' 1024 = (True, None)
   \<and> \<not> fst (validate_file default_settings ''notes.docx'' 1024)
   \<and> fst (fst (save_file default_settings ''0af3'' Map.empty [1, 2] ''FILE.TXT'')) = ''0af3.txt''"
proof -
  have m: "(1024 :: int) \<le> MAX_FILE_SIZE default_settings" by (simp add: default_settings_def)
  have docx: "lower (path_suffix ''notes.docx'') = ''.docx''"
    by (simp add: lower_def path_suffix_def path_name_def lower_char_def)
  note t = extension_checked_in_lower_case [of default_settings "''notes.docx''" 1024 "''0af3''" Map.empty "[1, 2]"]
  from t have "fst (validate_file default_settings ''notes.docx'' 1024)
     = (lower (path_suffix ''notes.docx'') \<in> set (ALLOWED_EXTENSIONS default_settings) \<and> 1024 \<le> MAX_FILE_SIZE default_settings)"
    by blast
  then have n: "\<not> fst (validate_file default_settings ''notes.docx'' 1024)"
    unfolding docx by (simp add: default_settings_def)
  from t m have "validate_file default_settings ''FILE.TXT'' 1024 = (True, None)
          \<and> validate_file default_settings ''doc.PDF'' 1024 = (True, None)" by blast
  moreover from t have "fst (fst (save_file default_settings ''0af3'' Map.empty [1, 2] ''FILE.TXT'')) = ''0af3'' @ ''.txt''"
    by blast
  ultimately show ?thesis using m n by simp
qed

section \<open>Reprocessing a document\<close>

lemma find_Some_props: "find P xs = Some x \<Longrightarrow> P x \<and> x \<in> set xs"
  by (induction xs) (auto split: if_splits)









section \<open>Chat: persisted sources and error handling\<close>





text \<open>
  Claim C3.  For every question, user id and source count, \<open>answer_question\<close>
  returns a result and never raises: the result carries the original question and the
  elapsed time rounded to 3 decimals, and when the retrieval, the chat model or any other
  step of the \<open>try\<close> block raises, the answer explains the error and the source list
  is empty.
\<close>

theorem answer_question_never_raises:
  "\<exists>result self'.
      answer_question settings deps self q current_user n_sources start_time end_time
        = (result, self')
      \<and> self' = ensure_initialized settings self
      \<and> question result = q
      \<and> processing_time result = py_round (end_time - start_time) 3
      \<and> (\<forall>r. answer_question_try deps self' q current_user n_sources start_time end_time = Inr r
             \<longrightarrow> result = r)
      \<and> (\<forall>e. answer_question_try deps self' q current_user n_sources start_time end_time = Inl e
             \<longrightarrow> answer result = ''I encountered an error while processing your question: ''
                                  @ str_exn e @ ''. Please try again.''
                 \<and> sources result = [])
      \<and> (\<forall>e. retrieve deps q current_user n_sources = Inl e
             \<longrightarrow> answer result = ''I encountered an error while processing your question: ''
                                  @ str_exn e @ ''. Please try again.''
                 \<and> sources result = [])
      \<and> (\<forall>e found client.
             retrieve deps q current_user n_sources = Inr found \<and> llm self' = Some client
             \<and> invoke deps client (SYSTEM_PROMPT_format (format_context found)) q = Inl e
             \<longrightarrow> answer result = ''I encountered an error while processing your question: ''
                                  @ str_exn e @ ''. Please try again.''
                 \<and> sources result = [])"
proof -
  let ?self = "ensure_initialized settings self"
  let ?body = "answer_question_try deps ?self q current_user n_sources start_time end_time"
  let ?err = "\<lambda>e. \<lparr> answer = ''I encountered an error while processing your question: ''
                          @ str_exn e @ ''. Please try again.'',
                sources = [],
                processing_time = py_round (end_time - start_time) 3,
                question = q \<rparr>"
  have retr: "retrieve deps q current_user n_sources = Inl e \<Longrightarrow> ?body = Inl e" for e
    by (simp add: answer_question_try_def)
  have inv: "retrieve deps q current_user n_sources = Inr found \<Longrightarrow> llm ?self = Some client
      \<Longrightarrow> invoke deps client (SYSTEM_PROMPT_format (format_context found)) q = Inl e
      \<Longrightarrow> ?body = Inl e" for e found client
    by (simp add: answer_question_try_def Let_def)
  have ok: "?body = Inr r \<Longrightarrow> question r = q \<and> processing_time r = py_round (end_time - start_time) 3" for r
    by (auto simp add: answer_question_try_def Let_def split: sum.splits option.splits)
  show ?thesis
  proof (cases ?body)
    case (Inl e)
    then have "answer_question settings deps self q current_user n_sources start_time end_time
        = (?err e, ?self)"
      by (simp add: answer_question_def Let_def)
    moreover have "\<forall>e'. retrieve deps q current_user n_sources = Inl e' \<longrightarrow> e' = e"
      using retr Inl by auto
    moreover have "\<forall>e' found client.
             retrieve deps q current_user n_sources = Inr found \<and> llm ?self = Some client
             \<and> invoke deps client (SYSTEM_PROMPT_format (format_context found)) q = Inl e'
             \<longrightarrow> e' = e"
      using inv Inl by auto
    ultimately show ?thesis using Inl
      apply (intro exI [of _ "?err e"] exI [of _ ?self])
      apply (simp only: )
      apply (intro conjI)
             apply simp_all
       apply (blast+)?
      done
  next
    case (Inr r)
    then have "answer_question settings deps self q current_user n_sources start_time end_time
        = (r, ?self)"
      by (simp add: answer_question_def Let_def)
    moreover have "\<forall>e'. retrieve deps q current_user n_sources \<noteq> Inl e'"
      using retr Inr by auto
    moreover have "\<forall>e' found client.
             \<not> (retrieve deps q current_user n_sources = Inr found \<and> llm ?self = Some client
             \<and> invoke deps client (SYSTEM_PROMPT_format (format_context found)) q = Inl e')"
      using inv Inr by auto
    ultimately show ?thesis using Inr ok [OF Inr]
      apply (intro exI [of _ r] exI [of _ ?self])
      apply (simp only: )
      apply (intro conjI)
             apply simp_all
       apply (blast+)?
      done
  qed
qed


theorem answer_question_never_raises_witness:
  "retrieve retrieval_raising ''What is in my documents?'' 7 5 = Inl (Exception ''index unavailable'')
   \<and> answer (fst (answer_question default_settings retrieval_raising new_LLMService
                  ''What is in my documents?'' 7 5 10 (123456 / 10000)))
       = ''I encountered an error while processing your question: index unavailable. Please try again.''
   \<and> sources (fst (answer_question default_settings retrieval_raising new_LLMService
                  ''What is in my documents?'' 7 5 10 (123456 / 10000))) = []
   \<and> processing_time (fst (answer_question default_settings retrieval_raising new_LLMService
                  ''What is in my documents?'' 7 5 10 (123456 / 10000))) = 2346 / 1000
   \<and> question (fst (answer_question default_settings retrieval_raising new_LLMService
                  ''What is in my documents?'' 7 5 10 (123456 / 10000))) = ''What is in my documents?''"
proof -
  have r: "retrieve retrieval_raising ''What is in my documents?'' 7 5
      = Inl (Exception ''index unavailable'')"
    by (simp add: retrieval_raising_def)
  have p: "py_round (123456 / 10000 - 10) 3 = 2346 / 1000"
    by (simp add: py_round_def round_half_even_def)
  from answer_question_never_raises [of default_settings retrieval_raising new_LLMService
      "''What is in my documents?''" 7 5 10 "123456 / 10000"]
  obtain result self' where
    a: "answer_question default_settings retrieval_raising new_LLMService
          ''What is in my documents?'' 7 5 10 (123456 / 10000) = (result, self')"
    and q: "question result = ''What is in my documents?''"
    and t: "processing_time result = py_round (123456 / 10000 - 10) 3"
    and e: "\<forall>e. retrieve retrieval_raising ''What is in my documents?'' 7 5 = Inl e
             \<longrightarrow> answer result = ''I encountered an error while processing your question: ''
                                  @ str_exn e @ ''. Please try again.''
                 \<and> sources result = []"
    by blast
  from e r have "answer result = ''I encountered an error while processing your question: ''
                                  @ str_exn (Exception ''index unavailable'') @ ''. Please try again.''
                 \<and> sources result = []" by blast
  then show ?thesis using a q t p r by simp
qed


section \<open>Search: what the index returns\<close>

lemma format_hit_query:
  assumes "i < length found"
  shows "format_hit \<lparr> ids = [map entry_id found], res_documents = [map entry_document found],
                     metadatas = [map entry_metadata found],
                     distances = [map (\<lambda>e. cosine_distance q (entry_embedding e)) found] \<rparr>
            i did
         = Inr ((hit_of q (found ! i))\<lparr> hit_id := did \<rparr>)"
  using assms by (simp add: format_hit_def index_def hit_of_def Let_def)

lemma format_loop_query:
  assumes "k \<le> length found"
  shows "format_loop \<lparr> ids = [map entry_id found], res_documents = [map entry_document found],
                     metadatas = [map entry_metadata found],
                     distances = [map (\<lambda>e. cosine_distance q (entry_embedding e)) found] \<rparr>
            (enumerate k (map entry_id (drop k found))) acc
         = Inr (acc @ map (hit_of q) (drop k found))"
  using assms
proof (induction "length found - k" arbitrary: k acc)
  case 0
  then show ?case by simp
next
  case (Suc n)
  then have k: "k < length found" by simp
  then have d: "drop k found = found ! k # drop (Suc k) found"
    by (simp add: Cons_nth_drop_Suc)
  have n: "n = length found - Suc k" using Suc.hyps(2) by simp
  have sk: "Suc k \<le> length found" using k by simp
  have h: "(hit_of q (found ! k))\<lparr> hit_id := entry_id (found ! k) \<rparr> = hit_of q (found ! k)"
    by (simp add: hit_of_def)
  show ?case
    unfolding d using Suc.hyps(1) [OF n sk, of "acc @ [hit_of q (found ! k)]"]
    by (simp add: format_hit_query [OF k] h)
qed

lemma search_try_result:
  assumes "(case vs_embeddings self of Some e \<Rightarrow> embed_query e query
            | None \<Rightarrow> Inr (get_mock_embedding digest_of query)) = Inr q"
    and "0 < actual_n_results n_results (int (length (vs_collection self)))"
  shows "search_try digest_of self query user n_results
     = Inr (map (hit_of q)
         (take (nat (actual_n_results n_results (int (length (vs_collection self)))))
            (sort_key (\<lambda>e. cosine_distance q (entry_embedding e))
               (filter (matches_where (''user_id'', MInt user)) (vs_collection self)))))"
proof -
  let ?found = "take (nat (actual_n_results n_results (int (length (vs_collection self)))))
            (sort_key (\<lambda>e. cosine_distance q (entry_embedding e))
               (filter (matches_where (''user_id'', MInt user)) (vs_collection self)))"
  have loop: "format_loop \<lparr> ids = [map entry_id ?found], res_documents = [map entry_document ?found],
                     metadatas = [map entry_metadata ?found],
                     distances = [map (\<lambda>e. cosine_distance q (entry_embedding e)) ?found] \<rparr>
            (enumerate 0 (map entry_id ?found)) [] = Inr (map (hit_of q) ?found)"
    using format_loop_query [of 0 ?found q "[]"] by simp
  show ?thesis
  proof (cases "?found = []")
    case True
    then show ?thesis using assms
      by (simp add: search_try_def collection_query_def Let_def)
  next
    case False
    then show ?thesis using assms loop
      by (simp add: search_try_def collection_query_def Let_def)
  qed
qed

lemma search_try_rejected:
  assumes "actual_n_results n_results (int (length (vs_collection self))) \<le> 0"
  shows "\<exists>e. search_try digest_of self query user n_results = Inl e"
  using assms by (simp add: search_try_def collection_query_def Let_def split: sum.splits option.splits)

lemma search_cases:
  "search digest_of self query user n_results = []
   \<or> (\<exists>q. (case vs_embeddings self of Some e \<Rightarrow> embed_query e query
            | None \<Rightarrow> Inr (get_mock_embedding digest_of query)) = Inr q
        \<and> 0 < actual_n_results n_results (int (length (vs_collection self)))
        \<and> search digest_of self query user n_results
            = map (hit_of q)
               (take (nat (actual_n_results n_results (int (length (vs_collection self)))))
                 (sort_key (\<lambda>e. cosine_distance q (entry_embedding e))
                   (filter (matches_where (''user_id'', MInt user)) (vs_collection self)))))"
proof (cases "(case vs_embeddings self of Some e \<Rightarrow> embed_query e query
            | None \<Rightarrow> Inr (get_mock_embedding digest_of query))")
  case (Inl e)
  then have "search_try digest_of self query user n_results = Inl e"
    by (simp add: search_try_def)
  then show ?thesis by (simp add: search_def)
next
  case (Inr q)
  show ?thesis
  proof (cases "0 < actual_n_results n_results (int (length (vs_collection self)))")
    case True
    show ?thesis using search_try_result [OF Inr True] Inr True by (simp add: search_def)
  next
    case False
    then obtain e where "search_try digest_of self query user n_results = Inl e"
      using search_try_rejected [of n_results self digest_of query user] by auto
    then show ?thesis by (simp add: search_def)
  qed
qed

lemma py_round_score_range:
  "- 1 \<le> py_round (1 - cosine_distance u v) 4 \<and> py_round (1 - cosine_distance u v) 4 \<le> 1"
proof -
  have r: "0 \<le> cosine_distance u v \<and> cosine_distance u v \<le> 2" by (rule cosine_distance_range)
  have "py_round (of_int (- 1)) 4 \<le> py_round (1 - cosine_distance u v) 4"
    by (rule py_round_mono) (use r in simp)
  moreover have "py_round (1 - cosine_distance u v) 4 \<le> py_round (of_int 1) 4"
    by (rule py_round_mono) (use r in simp)
  ultimately show ?thesis by (simp only: py_round_int) simp
qed

lemma py_round_score_nonneg:
  assumes "cosine_distance u v \<le> 1"
  shows "0 \<le> py_round (1 - cosine_distance u v) 4"
proof -
  have z: "py_round 0 4 = 0" by (simp add: py_round_def round_half_even_def)
  from assms have "0 \<le> 1 - cosine_distance u v" by simp
  then have "py_round 0 4 \<le> py_round (1 - cosine_distance u v) 4"
    by (rule py_round_mono)
  then show ?thesis unfolding z .
qed

lemma scores_descending:
  "sorted (rev (map hit_relevance_score
     (map (hit_of q) (take n (sort_key (\<lambda>e. cosine_distance q (entry_embedding e)) xs)))))"
proof -
  let ?d = "\<lambda>e. cosine_distance q (entry_embedding e)"
  have "sorted (map ?d (sort_key ?d xs))" by simp
  then have "sorted (take n (map ?d (sort_key ?d xs)))" by (rule sorted_wrt_take)
  then have s: "sorted (map ?d (take n (sort_key ?d xs)))" by (simp add: take_map)
  have "sorted_wrt (\<lambda>a b. b \<le> a) (map (\<lambda>e. py_round (1 - ?d e) 4) ys)" if "sorted (map ?d ys)" for ys
    using that by (induction ys) (auto intro: py_round_mono)
  from this [OF s]
  have "sorted_wrt (\<lambda>a b. b \<le> a) (map hit_relevance_score
     (map (hit_of q) (take n (sort_key ?d xs))))"
    by (simp add: hit_of_def comp_def)
  then show ?thesis by (simp only: sorted_wrt_rev)
qed


section \<open>Search in mock mode on the test texts\<close>

lemma periodic_sum:
  fixes G :: "nat \<Rightarrow> real"
  shows "(\<Sum>i<n * k. G (i mod k)) = of_nat n * (\<Sum>j<k. G j)"
proof (induction n)
  case 0
  then show ?case by simp
next
  case (Suc n)
  have "(\<Sum>i<Suc n * k. G (i mod k)) = (\<Sum>i\<in>{0..<n * k + k}. G (i mod k))"
    by (simp add: lessThan_atLeast0 add.commute)
  also have "\<dots> = (\<Sum>i\<in>{0..<n * k}. G (i mod k)) + (\<Sum>i\<in>{n * k..<n * k + k}. G (i mod k))"
    by (rule sum.atLeastLessThan_concat [symmetric]) simp_all
  also have "(\<Sum>i\<in>{n * k..<n * k + k}. G (i mod k)) = (\<Sum>j<k. G j)"
    using sum.shift_bounds_nat_ivl [of "\<lambda>i. G (i mod k)" 0 "n * k" k]
    by (simp add: add.commute lessThan_atLeast0)
  finally show ?case using Suc.IH by (simp add: lessThan_atLeast0 algebra_simps)
qed

lemma mock_dot:
  "dot (get_mock_embedding h s) (get_mock_embedding h t)
     = 48 * sum_list (map2 (\<lambda>a b. scaled a * scaled b) (Rep_digest (h s)) (Rep_digest (h t)))"
proof -
  let ?a = "Rep_digest (h s)" and ?b = "Rep_digest (h t)"
  have la: "length ?a = 32" using Rep_digest [of "h s"] by simp
  have lb: "length ?b = 32" using Rep_digest [of "h t"] by simp
  let ?G = "\<lambda>j. scaled (?a ! j) * scaled (?b ! j)"
  have "dot (get_mock_embedding h s) (get_mock_embedding h t)
      = sum_list (map (\<lambda>i. ?G (i mod 32)) [0..<48 * 32])"
    unfolding dot_def get_mock_embedding_def Let_def la lb scaled_def
    by (simp add: zip_map_map zip_same_conv_map comp_def del: upt_Suc)
  also have "\<dots> = (\<Sum>i<48 * 32. ?G (i mod 32))"
    by (simp add: interv_sum_list_conv_sum_set_nat lessThan_atLeast0 del: upt_Suc)
  also have "\<dots> = of_nat 48 * (\<Sum>j<32. ?G j)" by (rule periodic_sum)
  also have "(\<Sum>j<32. ?G j) = sum_list (map2 (\<lambda>a b. scaled a * scaled b) ?a ?b)"
    using la lb by (simp add: sum_list_sum_nth lessThan_atLeast0)
  finally show ?thesis by simp
qed


lemma rep_chunk: "Rep_digest (Abs_digest chunk_digest) = chunk_digest"
  by (rule Abs_digest_inverse) (simp add: chunk_digest_def)

lemma rep_question: "Rep_digest (Abs_digest question_digest) = question_digest"
  by (rule Abs_digest_inverse) (simp add: question_digest_def)

lemma sample_sums:
  "sum_list (map2 (\<lambda>a b. scaled a * scaled b) question_digest chunk_digest) = - 39714 / 65025"
  "sum_list (map2 (\<lambda>a b. scaled a * scaled b) question_digest question_digest) = 625784 / 65025"
  "sum_list (map2 (\<lambda>a b. scaled a * scaled b) chunk_digest chunk_digest) = 694224 / 65025"
  by (simp_all add: question_digest_def chunk_digest_def scaled_def)

lemma round_half_even_unique:
  assumes "of_int k - 1 / 2 < y" and "y < of_int k + 1 / 2"
  shows "round_half_even y = k"
proof -
  have f: "of_int \<lfloor>y\<rfloor> \<le> y" "y < of_int \<lfloor>y\<rfloor> + 1" by linarith+
  from assms f have "\<lfloor>y\<rfloor> = k - 1 \<or> \<lfloor>y\<rfloor> = k" by linarith
  then show ?thesis
  proof
    assume a: "\<lfloor>y\<rfloor> = k - 1"
    then have "1 / 2 < y - of_int \<lfloor>y\<rfloor>" using assms by simp
    then show ?thesis unfolding round_half_even_def Let_def using a by simp
  next
    assume a: "\<lfloor>y\<rfloor> = k"
    then have "y - of_int \<lfloor>y\<rfloor> < 1 / 2" using assms by simp
    then show ?thesis unfolding round_half_even_def Let_def using a by simp
  qed
qed

lemma negative_cosine_between:
  fixes p q r lo hi :: real
  assumes "0 < p" "0 < r" "q < 0" "lo < 0" "hi < 0"
    and "hi\<^sup>2 * (p * r) < q\<^sup>2" and "q\<^sup>2 < lo\<^sup>2 * (p * r)"
  shows "lo < q / (sqrt p * sqrt r) \<and> q / (sqrt p * sqrt r) < hi"
proof -
  let ?s = "sqrt p * sqrt r"
  have s: "0 < ?s" using assms(1,2) by simp
  have s2: "?s\<^sup>2 = p * r" using assms(1,2) by (simp add: power_mult_distrib)
  have h1: "((- hi) * ?s)\<^sup>2 < (- q)\<^sup>2" using assms(6) s2 by (simp add: power_mult_distrib)
  have "0 \<le> - q" using assms(3) by simp
  with h1 have a: "(- hi) * ?s < - q" by (rule power2_less_imp_less)
  have h2: "(- q)\<^sup>2 < ((- lo) * ?s)\<^sup>2" using assms(7) s2 by (simp add: power_mult_distrib)
  have "0 \<le> - lo" using assms(4) by simp
  moreover have "0 \<le> ?s" using s by (rule less_imp_le)
  ultimately have "0 \<le> (- lo) * ?s" by (rule mult_nonneg_nonneg)
  with h2 have b: "- q < (- lo) * ?s" by (rule power2_less_imp_less)
  have "q / ?s < hi" using a s by (simp add: pos_divide_less_eq)
  moreover have "lo < q / ?s" using b s by (simp add: pos_less_divide_eq)
  ultimately show ?thesis by simp
qed


lemma sample_score:
  "py_round (1 - cosine_distance (get_mock_embedding sample_sha256 ''What is in my documents?'')
                  (get_mock_embedding sample_sha256 ''This is a test document with some content.'')) 4
     = - 603 / 10000"
proof -
  let ?u = "get_mock_embedding sample_sha256 ''What is in my documents?''"
  let ?v = "get_mock_embedding sample_sha256 ''This is a test document with some content.''"
  have rq: "Rep_digest (sample_sha256 ''What is in my documents?'') = question_digest"
    by (simp add: sample_sha256_def rep_question)
  have rc: "Rep_digest (sample_sha256 ''This is a test document with some content.'') = chunk_digest"
    by (simp add: sample_sha256_def rep_chunk)
  have q: "dot ?u ?v = 48 * (- 39714 / 65025)"
    unfolding mock_dot rq rc sample_sums ..
  have p: "dot ?u ?u = 48 * (625784 / 65025)"
    unfolding mock_dot rq sample_sums ..
  have r: "dot ?v ?v = 48 * (694224 / 65025)"
    unfolding mock_dot rc sample_sums ..
  have "- 6035 / 100000 < dot ?u ?v / (sqrt (dot ?u ?u) * sqrt (dot ?v ?v))
      \<and> dot ?u ?v / (sqrt (dot ?u ?u) * sqrt (dot ?v ?v)) < - 6025 / 100000"
    unfolding p q r by (rule negative_cosine_between) (simp_all add: power2_eq_square)
  then have "of_int (- 603) - 1 / 2 < (1 - cosine_distance ?u ?v) * 10 ^ 4"
      and "(1 - cosine_distance ?u ?v) * 10 ^ 4 < of_int (- 603) + 1 / 2"
    unfolding cosine_distance_def by simp_all
  then have "round_half_even ((1 - cosine_distance ?u ?v) * 10 ^ 4) = - 603"
    by (rule round_half_even_unique)
  then show ?thesis unfolding py_round_def by simp
qed

lemma sample_search:
  "search sample_sha256 sample_mock_store ''What is in my documents?'' 7 5
     = [\<lparr> hit_id = ''doc_1_chunk_0'',
          hit_content = ''This is a test document with some content.'',
          hit_metadata = [(''document_id'', MInt 1), (''document_name'', MStr ''test.txt''),
                          (''user_id'', MInt 7), (''chunk_index'', MInt 0),
                          (''created_at'', MStr ''t101'')],
          hit_relevance_score = - 603 / 10000 \<rparr>]"
proof -
  let ?q = "get_mock_embedding sample_sha256 ''What is in my documents?''"
  let ?e = "chunk_entry 1 ''test.txt'' 7 ''t101''
            (0, ''This is a test document with some content.'',
             get_mock_embedding sample_sha256 ''This is a test document with some content.'')"
  have emb: "(case vs_embeddings sample_mock_store of Some e \<Rightarrow> embed_query e ''What is in my documents?''
            | None \<Rightarrow> Inr (get_mock_embedding sample_sha256 ''What is in my documents?'')) = Inr ?q"
    by (simp add: sample_mock_store_def)
  have n: "actual_n_results 5 (int (length (vs_collection sample_mock_store))) = 1"
    by (simp add: sample_mock_store_def actual_n_results_def)
  then have pos: "0 < actual_n_results 5 (int (length (vs_collection sample_mock_store)))" by simp
  have m: "matches_where (''user_id'', MInt 7) ?e"
    by (simp add: matches_where_def chunk_entry_def)
  have coll: "vs_collection sample_mock_store = [?e]" by (simp add: sample_mock_store_def)
  have "search_try sample_sha256 sample_mock_store ''What is in my documents?'' 7 5 = Inr [hit_of ?q ?e]"
    unfolding search_try_result [OF emb pos] coll using m by (simp add: actual_n_results_def)
  moreover have "hit_of ?q ?e = \<lparr> hit_id = ''doc_1_chunk_0'',
          hit_content = ''This is a test document with some content.'',
          hit_metadata = [(''document_id'', MInt 1), (''document_name'', MStr ''test.txt''),
                          (''user_id'', MInt 7), (''chunk_index'', MInt 0),
                          (''created_at'', MStr ''t101'')],
          hit_relevance_score = - 603 / 10000 \<rparr>"
    unfolding hit_of_def using sample_score
    by (simp add: chunk_entry_def str_int_def str_nat.simps digit_char_def)
  ultimately show ?thesis by (simp add: search_def)
qed


section \<open>Search: scores, order, count and isolation\<close>

lemma hits_of_user:
  assumes "h \<in> set (map (hit_of q) (take n (sort_key f (filter (matches_where (''user_id'', MInt user)) xs))))"
  shows "\<exists>e \<in> set xs. h = hit_of q e \<and> map_of (entry_metadata e) ''user_id'' = Some (MInt user)"
proof -
  from assms obtain e where e: "e \<in> set (take n (sort_key f (filter (matches_where (''user_id'', MInt user)) xs)))"
      and h: "h = hit_of q e" by auto
  from e have "e \<in> set (sort_key f (filter (matches_where (''user_id'', MInt user)) xs))"
    by (rule in_set_takeD)
  then have "e \<in> set xs \<and> matches_where (''user_id'', MInt user) e" by simp
  then show ?thesis using h by (auto simp add: matches_where_def)
qed

text \<open>
  Claim C1 (as amended).  For every search call, each returned hit's relevance score is
  \<open>round(1 - cosine_distance, 4)\<close> for the distance between the query vector and the
  hit's entry; it lies in \<open>[-1, 1]\<close>, and in \<open>[0, 1]\<close> whenever that distance is at
  most 1; the hits are ordered from highest to lowest score.
\<close>

theorem search_scores_ordered:
  "(\<forall>h \<in> set (search digest_of self query user n_results).
      - 1 \<le> hit_relevance_score h \<and> hit_relevance_score h \<le> 1)
   \<and> sorted (rev (map hit_relevance_score (search digest_of self query user n_results)))
   \<and> (search digest_of self query user n_results \<noteq> [] \<longrightarrow>
        (\<exists>q. (case vs_embeddings self of Some e \<Rightarrow> embed_query e query
                | None \<Rightarrow> Inr (get_mock_embedding digest_of query)) = Inr q
           \<and> (\<forall>h \<in> set (search digest_of self query user n_results).
                 \<exists>e \<in> set (vs_collection self).
                   hit_id h = entry_id e
                   \<and> hit_relevance_score h
                       = py_round (1 - cosine_distance q (entry_embedding e)) 4
                   \<and> (cosine_distance q (entry_embedding e) \<le> 1
                        \<longrightarrow> 0 \<le> hit_relevance_score h))))"
proof -
  let ?res = "search digest_of self query user n_results"
  let ?emb = "case vs_embeddings self of Some e \<Rightarrow> embed_query e query
                | None \<Rightarrow> Inr (get_mock_embedding digest_of query)"
  from search_cases [of digest_of self query user n_results]
  consider (none) "?res = []"
    | (some) q where "?emb = Inr q"
        "?res = map (hit_of q)
               (take (nat (actual_n_results n_results (int (length (vs_collection self)))))
                 (sort_key (\<lambda>e. cosine_distance q (entry_embedding e))
                   (filter (matches_where (''user_id'', MInt user)) (vs_collection self))))"
    by blast
  then show ?thesis
  proof cases
    case none
    then show ?thesis by simp
  next
    case some
    have each: "\<exists>e \<in> set (vs_collection self). h = hit_of q e" if "h \<in> set ?res" for h
      using that hits_of_user [of h q _ _ user "vs_collection self"] unfolding some(2) by blast
    have a: "\<forall>h \<in> set ?res. - 1 \<le> hit_relevance_score h \<and> hit_relevance_score h \<le> 1"
    proof
      fix h assume "h \<in> set ?res"
      then obtain e where "h = hit_of q e" using each by blast
      then show "- 1 \<le> hit_relevance_score h \<and> hit_relevance_score h \<le> 1"
        using py_round_score_range [of q "entry_embedding e"] by (simp add: hit_of_def)
    qed
    have b: "sorted (rev (map hit_relevance_score ?res))"
      unfolding some(2) by (rule scores_descending)
    have c: "\<forall>h \<in> set ?res. \<exists>e \<in> set (vs_collection self).
                   hit_id h = entry_id e
                   \<and> hit_relevance_score h
                       = py_round (1 - cosine_distance q (entry_embedding e)) 4
                   \<and> (cosine_distance q (entry_embedding e) \<le> 1
                        \<longrightarrow> 0 \<le> hit_relevance_score h)"
    proof
      fix h assume "h \<in> set ?res"
      then obtain e where e: "e \<in> set (vs_collection self)" "h = hit_of q e" using each by blast
      have "hit_id h = entry_id e
                   \<and> hit_relevance_score h
                       = py_round (1 - cosine_distance q (entry_embedding e)) 4
                   \<and> (cosine_distance q (entry_embedding e) \<le> 1
                        \<longrightarrow> 0 \<le> hit_relevance_score h)"
        using py_round_score_nonneg [of q "entry_embedding e"] e(2) by (simp add: hit_of_def)
      then show "\<exists>e \<in> set (vs_collection self).
                   hit_id h = entry_id e
                   \<and> hit_relevance_score h
                       = py_round (1 - cosine_distance q (entry_embedding e)) 4
                   \<and> (cosine_distance q (entry_embedding e) \<le> 1
                        \<longrightarrow> 0 \<le> hit_relevance_score h)"
        using e(1) by blast
    qed
    from some(1) c have "\<exists>q. ?emb = Inr q \<and> (\<forall>h \<in> set ?res. \<exists>e \<in> set (vs_collection self).
                   hit_id h = entry_id e
                   \<and> hit_relevance_score h
                       = py_round (1 - cosine_distance q (entry_embedding e)) 4
                   \<and> (cosine_distance q (entry_embedding e) \<le> 1
                        \<longrightarrow> 0 \<le> hit_relevance_score h))" by blast
    with a b show ?thesis by blast
  qed
qed

theorem search_scores_ordered_witness:
  "\<exists>h. search sample_sha256 sample_mock_store ''What is in my documents?'' 7 5 = [h]
        \<and> - 1 \<le> hit_relevance_score h \<and> hit_relevance_score h \<le> 1
        \<and> sorted (rev (map hit_relevance_score
              (search sample_sha256 sample_mock_store ''What is in my documents?'' 7 5)))"
proof -
  from sample_search obtain h where
    h: "search sample_sha256 sample_mock_store ''What is in my documents?'' 7 5 = [h]" by blast
  from search_scores_ordered [of sample_sha256 sample_mock_store "''What is in my documents?''" 7 5]
  have "(\<forall>x \<in> set (search sample_sha256 sample_mock_store ''What is in my documents?'' 7 5).
      - 1 \<le> hit_relevance_score x \<and> hit_relevance_score x \<le> 1)"
    and "sorted (rev (map hit_relevance_score
              (search sample_sha256 sample_mock_store ''What is in my documents?'' 7 5)))"
    by blast+
  then show ?thesis using h by auto
qed

text \<open>
  The score is negative when the cosine distance exceeds 1.  In mock mode, with the test
  document ingested, the question of the chat test retrieves its chunk with the score
  \<open>-0.0603\<close>.
\<close>

theorem search_score_negative:
  "map hit_relevance_score
     (search sample_sha256 sample_mock_store ''What is in my documents?'' 7 5) = [- 603 / 10000]
   \<and> \<not> (\<forall>h \<in> set (search sample_sha256 sample_mock_store ''What is in my documents?'' 7 5).
          0 \<le> hit_relevance_score h \<and> hit_relevance_score h \<le> 1)"
  unfolding sample_search by simp





section \<open>Upload\<close>

lemma upload_one_rejected:
  assumes "\<not> accepted settings file"
  shows "upload_one settings env now u p file = p\<lparr> up_failed := up_failed p + 1 \<rparr>"
proof (cases "upload_filename file")
  case None
  then show ?thesis by (simp add: upload_one_def)
next
  case (Some name)
  obtain ok err where v: "validate_file settings name (int (length (upload_content file))) = (ok, err)"
    by (cases "validate_file settings name (int (length (upload_content file)))")
  with assms Some have "\<not> ok" by (simp add: accepted_def)
  then show ?thesis using Some v by (simp add: upload_one_def Let_def)
qed

lemma upload_one_accepted:
  fixes settings env now u p fl
  defines "d \<equiv> created_document settings env now u (up_state p) fl"
  assumes "accepted settings fl"
  shows "db_documents (up_state (upload_one settings env now u p fl))
           = db_documents (up_state p) @ [d]"
    and "up_tasks (upload_one settings env now u p fl) = up_tasks p @ [scheduled_task u d]"
    and "uploaded_documents (upload_one settings env now u p fl)
           = uploaded_documents p @ [model_validate d]"
    and "up_successful (upload_one settings env now u p fl) = up_successful p + 1"
    and "up_failed (upload_one settings env now u p fl) = up_failed p"
    and "disk (up_state (upload_one settings env now u p fl))
           = (disk (up_state p))(file_path d \<mapsto> upload_content fl)"
    and "next_document_id (up_state (upload_one settings env now u p fl))
           = next_document_id (up_state p) + 1"
    and "vector_store (up_state (upload_one settings env now u p fl))
           = vector_store (up_state p)"
proof -
  from assms(2) obtain name where n: "upload_filename fl = Some name"
    by (cases "upload_filename fl") (simp_all add: accepted_def)
  obtain ok err where v: "validate_file settings name (int (length (upload_content fl))) = (ok, err)"
    by (cases "validate_file settings name (int (length (upload_content fl)))")
  with assms(2) n have ok: "ok" by (simp add: accepted_def)
  obtain unique path disk' where s: "save_file settings (uuid4_hex env (uuid_count (up_state p)))
      (disk (up_state p)) (upload_content fl) name = ((unique, path), disk')"
    by (cases "save_file settings (uuid4_hex env (uuid_count (up_state p)))
      (disk (up_state p)) (upload_content fl) name") auto
  then have dk: "disk' = (disk (up_state p))(path \<mapsto> upload_content fl)"
    by (auto simp add: save_file_def Let_def)
  have dd: "d = \<lparr> doc_id = next_document_id (up_state p), filename = unique,
               original_filename = name, file_path = path,
               file_type = lower (path_suffix name),
               file_size = int (length (upload_content fl)), status = PENDING,
               chunk_count = 0, embedding_count = 0, content_preview = None,
               error_message = None, created_at = now, processed_at = None,
               user_id = u \<rparr>"
    using s by (simp add: d_def created_document_def Let_def n)
  have one: "upload_one settings env now u p fl =
      p\<lparr> up_state := (up_state p)\<lparr> db_documents := db_documents (up_state p) @ [d],
                                   next_document_id := next_document_id (up_state p) + 1,
                                   disk := disk',
                                   uuid_count := uuid_count (up_state p) + 1 \<rparr>,
         up_tasks := up_tasks p @ [scheduled_task u d],
         uploaded_documents := uploaded_documents p @ [model_validate d],
         up_successful := up_successful p + 1 \<rparr>"
    using ok n v s by (simp add: upload_one_def Let_def dd scheduled_task_def)
  show "db_documents (up_state (upload_one settings env now u p fl))
           = db_documents (up_state p) @ [d]" unfolding one by simp
  show "up_tasks (upload_one settings env now u p fl) = up_tasks p @ [scheduled_task u d]"
    unfolding one by simp
  show "uploaded_documents (upload_one settings env now u p fl)
           = uploaded_documents p @ [model_validate d]" unfolding one by simp
  show "up_successful (upload_one settings env now u p fl) = up_successful p + 1"
    unfolding one by simp
  show "up_failed (upload_one settings env now u p fl) = up_failed p" unfolding one by simp
  have "file_path d = path" unfolding dd by simp
  then show "disk (up_state (upload_one settings env now u p fl))
           = (disk (up_state p))(file_path d \<mapsto> upload_content fl)"
    unfolding one dk by simp
  show "next_document_id (up_state (upload_one settings env now u p fl))
           = next_document_id (up_state p) + 1" unfolding one by simp
  show "vector_store (up_state (upload_one settings env now u p fl))
           = vector_store (up_state p)" unfolding one by simp
qed

lemma created_document_fields:
  "status (created_document settings env now u st file) = PENDING"
  "user_id (created_document settings env now u st file) = u"
  "chunk_count (created_document settings env now u st file) = 0"
  "embedding_count (created_document settings env now u st file) = 0"
  "content_preview (created_document settings env now u st file) = None"
  "error_message (created_document settings env now u st file) = None"
  "doc_id (created_document settings env now u st file) = next_document_id st"
  "original_filename (created_document settings env now u st file) = the (upload_filename file)"
  by (simp_all add: created_document_def Let_def)


lemma upload_loop_effect:
  "\<exists>new.
     db_documents (up_state (upload_loop settings env now u p files))
       = db_documents (up_state p) @ new
     \<and> up_tasks (upload_loop settings env now u p files)
         = up_tasks p @ map (scheduled_task u) new
     \<and> uploaded_documents (upload_loop settings env now u p files)
         = uploaded_documents p @ map model_validate new
     \<and> up_successful (upload_loop settings env now u p files)
         = up_successful p + length (filter (accepted settings) files)
     \<and> up_failed (upload_loop settings env now u p files)
         = up_failed p + length (filter (\<lambda>f. \<not> accepted settings f) files)
     \<and> length new = length (filter (accepted settings) files)
     \<and> map original_filename new
         = map (\<lambda>f. the (upload_filename f)) (filter (accepted settings) files)
     \<and> (\<forall>d \<in> set new. status d = PENDING \<and> user_id d = u \<and> chunk_count d = 0
            \<and> embedding_count d = 0
            \<and> file_path d \<in> dom (disk (up_state (upload_loop settings env now u p files))))
     \<and> dom (disk (up_state p)) \<subseteq> dom (disk (up_state (upload_loop settings env now u p files)))
     \<and> vector_store (up_state (upload_loop settings env now u p files)) = vector_store (up_state p)"
proof (induction files arbitrary: p)
  case Nil
  show ?case by (rule exI [of _ "[]"]) simp
next
  case (Cons f files)
  let ?p1 = "upload_one settings env now u p f"
  let ?p' = "upload_loop settings env now u ?p1 files"
  have loop: "upload_loop settings env now u p (f # files) = ?p'" by simp
  from Cons.IH [of ?p1] obtain new where
    ih: "db_documents (up_state ?p') = db_documents (up_state ?p1) @ new"
      "up_tasks ?p' = up_tasks ?p1 @ map (scheduled_task u) new"
      "uploaded_documents ?p' = uploaded_documents ?p1 @ map model_validate new"
      "up_successful ?p' = up_successful ?p1 + length (filter (accepted settings) files)"
      "up_failed ?p' = up_failed ?p1 + length (filter (\<lambda>f. \<not> accepted settings f) files)"
      "length new = length (filter (accepted settings) files)"
      "map original_filename new
         = map (\<lambda>f. the (upload_filename f)) (filter (accepted settings) files)"
      "\<forall>d \<in> set new. status d = PENDING \<and> user_id d = u \<and> chunk_count d = 0
            \<and> embedding_count d = 0 \<and> file_path d \<in> dom (disk (up_state ?p'))"
      "dom (disk (up_state ?p1)) \<subseteq> dom (disk (up_state ?p'))"
      "vector_store (up_state ?p') = vector_store (up_state ?p1)"
    by blast
  show ?case
  proof (cases "accepted settings f")
    case False
    have p1: "?p1 = p\<lparr> up_failed := up_failed p + 1 \<rparr>"
      using False by (rule upload_one_rejected)
    show ?thesis
      unfolding loop
      apply (rule exI [of _ new])
      using ih False unfolding p1 by simp
  next
    case True
    let ?d = "created_document settings env now u (up_state p) f"
    note one = upload_one_accepted [OF True, of env now u p]
    have dpath: "file_path ?d \<in> dom (disk (up_state ?p1))" unfolding one(6) by simp
    then have dpath': "file_path ?d \<in> dom (disk (up_state ?p'))" using ih(9) by blast
    have dsub: "dom (disk (up_state p)) \<subseteq> dom (disk (up_state ?p'))"
      using ih(9) unfolding one(6) by auto
    have dfields: "status ?d = PENDING \<and> user_id ?d = u \<and> chunk_count ?d = 0
            \<and> embedding_count ?d = 0" by (simp add: created_document_fields)
    show ?thesis
      unfolding loop
      apply (rule exI [of _ "?d # new"])
      using ih(1-8) ih(10) True dpath' dsub dfields
      unfolding one(1-5) one(8)
      by (simp add: created_document_fields)
  qed
qed


text \<open>
  Claim C4.  The upload operation rejects the request (Bad Request, 400) only when no file
  is supplied.  Otherwise it answers with the counts, whatever the files: the total is
  the number of submitted files, \<open>successful\<close> counts the accepted files and \<open>failed\<close>
  the others, so the two add up to the total; the accepted files, in order, each get a
  stored file, a new row with status \<open>pending\<close> and a scheduled ingestion task, and a
  file that fails validation gets no row.
\<close>

theorem upload_counts_each_file:
  "upload_documents settings env now u st [] = Inl (HTTPException 400 ''No files provided'')
   \<and> (files \<noteq> [] \<longrightarrow>
        (\<exists>resp st' tasks new.
           upload_documents settings env now u st files = Inr (resp, st', tasks)
           \<and> total_uploaded resp = length files
           \<and> successful resp = length (filter (accepted settings) files)
           \<and> failed resp = length (filter (\<lambda>f. \<not> accepted settings f) files)
           \<and> successful resp + failed resp = length files
           \<and> db_documents st' = db_documents st @ new
           \<and> length new = successful resp
           \<and> map original_filename new
               = map (\<lambda>f. the (upload_filename f)) (filter (accepted settings) files)
           \<and> (\<forall>d \<in> set new. status d = PENDING \<and> user_id d = u \<and> chunk_count d = 0
                  \<and> embedding_count d = 0 \<and> file_path d \<in> dom (disk st'))
           \<and> tasks = map (scheduled_task u) new
           \<and> documents resp = map model_validate new))"
proof -
  have empty: "upload_documents settings env now u st [] = Inl (HTTPException 400 ''No files provided'')"
    by (simp add: upload_documents_def)
  have some: "\<exists>resp st' tasks new.
           upload_documents settings env now u st files = Inr (resp, st', tasks)
           \<and> total_uploaded resp = length files
           \<and> successful resp = length (filter (accepted settings) files)
           \<and> failed resp = length (filter (\<lambda>f. \<not> accepted settings f) files)
           \<and> successful resp + failed resp = length files
           \<and> db_documents st' = db_documents st @ new
           \<and> length new = successful resp
           \<and> map original_filename new
               = map (\<lambda>f. the (upload_filename f)) (filter (accepted settings) files)
           \<and> (\<forall>d \<in> set new. status d = PENDING \<and> user_id d = u \<and> chunk_count d = 0
                  \<and> embedding_count d = 0 \<and> file_path d \<in> dom (disk st'))
           \<and> tasks = map (scheduled_task u) new
           \<and> documents resp = map model_validate new" if ne: "files \<noteq> []"
  proof -
    let ?start = "\<lparr> up_state = st, up_tasks = [], uploaded_documents = [],
                    up_successful = 0, up_failed = 0 \<rparr>"
    let ?p = "upload_loop settings env now u ?start files"
    let ?resp = "\<lparr> message = ''Upload completed: '' @ str_nat (up_successful ?p)
                             @ '' successful, '' @ str_nat (up_failed ?p) @ '' failed'',
                   documents = uploaded_documents ?p,
                   total_uploaded = length files,
                   successful = up_successful ?p,
                   failed = up_failed ?p \<rparr>"
    have r: "upload_documents settings env now u st files = Inr (?resp, up_state ?p, up_tasks ?p)"
      using ne by (simp add: upload_documents_def Let_def)
    from upload_loop_effect [of settings env now u ?start files] obtain new where
      e: "db_documents (up_state ?p) = db_documents (up_state ?start) @ new
        \<and> up_tasks ?p = up_tasks ?start @ map (scheduled_task u) new
        \<and> uploaded_documents ?p = uploaded_documents ?start @ map model_validate new
        \<and> up_successful ?p = up_successful ?start + length (filter (accepted settings) files)
        \<and> up_failed ?p = up_failed ?start + length (filter (\<lambda>f. \<not> accepted settings f) files)
        \<and> length new = length (filter (accepted settings) files)
        \<and> map original_filename new
           = map (\<lambda>f. the (upload_filename f)) (filter (accepted settings) files)
        \<and> (\<forall>d \<in> set new. status d = PENDING \<and> user_id d = u \<and> chunk_count d = 0
              \<and> embedding_count d = 0 \<and> file_path d \<in> dom (disk (up_state ?p)))
        \<and> dom (disk (up_state ?start)) \<subseteq> dom (disk (up_state ?p))
        \<and> vector_store (up_state ?p) = vector_store (up_state ?start)"
      by (elim exE) (erule that)
    have split: "length (filter (accepted settings) files)
        + length (filter (\<lambda>f. \<not> accepted settings f) files) = length files"
      by (rule sum_length_filter_compl)
    have f1: "total_uploaded ?resp = length files" by simp
    have f2: "successful ?resp = length (filter (accepted settings) files)" using e by simp
    have f3: "failed ?resp = length (filter (\<lambda>f. \<not> accepted settings f) files)" using e by simp
    have f4: "successful ?resp + failed ?resp = length files" using f2 f3 split by simp
    have f5: "db_documents (up_state ?p) = db_documents st @ new" using e by simp
    have f6: "length new = successful ?resp" using e f2 by simp
    have f7: "up_tasks ?p = map (scheduled_task u) new" using e by simp
    have f8: "documents ?resp = map model_validate new" using e by simp
    have e7: "map original_filename new
               = map (\<lambda>f. the (upload_filename f)) (filter (accepted settings) files)"
      using e by (elim conjE)
    have e8: "\<forall>d \<in> set new. status d = PENDING \<and> user_id d = u \<and> chunk_count d = 0
                  \<and> embedding_count d = 0 \<and> file_path d \<in> dom (disk (up_state ?p))"
      using e by (elim conjE)
    show ?thesis
      apply (rule exI [of _ ?resp])
      apply (rule exI [of _ "up_state ?p"])
      apply (rule exI [of _ "up_tasks ?p"])
      apply (rule exI [of _ new])
      apply (intro conjI)
                apply (rule r)
               apply (rule f1)
              apply (rule f2)
             apply (rule f3)
            apply (rule f4)
           apply (rule f5)
          apply (rule f6)
         apply (rule e7)
        apply (rule e8)
       apply (rule f7)
      apply (rule f8)
      done
  qed
  show ?thesis using empty some by (intro conjI impI)
qed

lemma sample_accepted:
  "accepted default_settings sample_txt_upload" "\<not> accepted default_settings sample_docx_upload"
  by (simp_all add: accepted_def sample_txt_upload_def sample_docx_upload_def validate_file_def
        default_settings_def lower_def path_suffix_def path_name_def lower_char_def)

theorem upload_counts_each_file_witness:
  "[sample_txt_upload, sample_docx_upload] \<noteq> []
   \<and> (\<exists>resp st' tasks d.
         upload_documents default_settings sample_environment 100 7 sample_state
            [sample_txt_upload, sample_docx_upload] = Inr (resp, st', tasks)
         \<and> total_uploaded resp = 2 \<and> successful resp = 1 \<and> failed resp = 1
         \<and> db_documents st' = db_documents sample_state @ [d]
         \<and> original_filename d = ''test.txt'' \<and> status d = PENDING
         \<and> tasks = [scheduled_task 7 d])"
proof -
  have ne: "[sample_txt_upload, sample_docx_upload] \<noteq> []" by simp
  have fa: "filter (accepted default_settings) [sample_txt_upload, sample_docx_upload] = [sample_txt_upload]"
    using sample_accepted by simp
  have fr: "filter (\<lambda>f. \<not> accepted default_settings f) [sample_txt_upload, sample_docx_upload]
      = [sample_docx_upload]"
    using sample_accepted by simp
  from upload_counts_each_file [of default_settings sample_environment 100 7 sample_state
      "[sample_txt_upload, sample_docx_upload]"]
  have "\<exists>resp st' tasks new.
      upload_documents default_settings sample_environment 100 7 sample_state
            [sample_txt_upload, sample_docx_upload] = Inr (resp, st', tasks)
      \<and> total_uploaded resp = length [sample_txt_upload, sample_docx_upload]
      \<and> successful resp = length (filter (accepted default_settings) [sample_txt_upload, sample_docx_upload])
      \<and> failed resp = length (filter (\<lambda>f. \<not> accepted default_settings f) [sample_txt_upload, sample_docx_upload])
      \<and> successful resp + failed resp = length [sample_txt_upload, sample_docx_upload]
      \<and> db_documents st' = db_documents sample_state @ new
      \<and> length new = successful resp
      \<and> map original_filename new
               = map (\<lambda>f. the (upload_filename f)) (filter (accepted default_settings) [sample_txt_upload, sample_docx_upload])
      \<and> (\<forall>d \<in> set new. status d = PENDING \<and> user_id d = 7 \<and> chunk_count d = 0
                  \<and> embedding_count d = 0 \<and> file_path d \<in> dom (disk st'))
      \<and> tasks = map (scheduled_task 7) new
      \<and> documents resp = map model_validate new"
    using ne by (elim conjE impE)
  then obtain resp st' tasks new where
    u0: "upload_documents default_settings sample_environment 100 7 sample_state
            [sample_txt_upload, sample_docx_upload] = Inr (resp, st', tasks)
      \<and> total_uploaded resp = length [sample_txt_upload, sample_docx_upload]
      \<and> successful resp = length (filter (accepted default_settings) [sample_txt_upload, sample_docx_upload])
      \<and> failed resp = length (filter (\<lambda>f. \<not> accepted default_settings f) [sample_txt_upload, sample_docx_upload])
      \<and> successful resp + failed resp = length [sample_txt_upload, sample_docx_upload]
      \<and> db_documents st' = db_documents sample_state @ new
      \<and> length new = successful resp
      \<and> map original_filename new
               = map (\<lambda>f. the (upload_filename f)) (filter (accepted default_settings) [sample_txt_upload, sample_docx_upload])
      \<and> (\<forall>d \<in> set new. status d = PENDING \<and> user_id d = 7 \<and> chunk_count d = 0
                  \<and> embedding_count d = 0 \<and> file_path d \<in> dom (disk st'))
      \<and> tasks = map (scheduled_task 7) new
      \<and> documents resp = map model_validate new"
    by (elim exE) (erule that)
  have u: "upload_documents default_settings sample_environment 100 7 sample_state
            [sample_txt_upload, sample_docx_upload] = Inr (resp, st', tasks)
      \<and> total_uploaded resp = 2
      \<and> successful resp = 1
      \<and> failed resp = 1
      \<and> db_documents st' = db_documents sample_state @ new
      \<and> length new = successful resp
      \<and> map original_filename new = [''test.txt'']
      \<and> (\<forall>d \<in> set new. status d = PENDING)
      \<and> tasks = map (scheduled_task 7) new"
    using u0 unfolding fa fr by (simp add: sample_txt_upload_def)
  from u have u1: "upload_documents default_settings sample_environment 100 7 sample_state
            [sample_txt_upload, sample_docx_upload] = Inr (resp, st', tasks)"
    and u2: "total_uploaded resp = 2" and u3: "successful resp = 1" and u4: "failed resp = 1"
    and u5: "db_documents st' = db_documents sample_state @ new"
    and u6: "length new = successful resp"
    and u7: "map original_filename new = [''test.txt'']"
    and u8: "\<forall>d \<in> set new. status d = PENDING"
    and u9: "tasks = map (scheduled_task 7) new"
    by blast+
  from u6 u3 have "length new = 1" by simp
  then obtain d where new: "new = [d]" by (cases new) auto
  have n: "original_filename d = ''test.txt''" using u7 unfolding new by simp
  have s: "status d = PENDING" using u8 unfolding new by simp
  have t: "tasks = [scheduled_task 7 d]" using u9 unfolding new by simp
  have b: "db_documents st' = db_documents sample_state @ [d]" using u5 unfolding new .
  show ?thesis
    apply (rule conjI [OF ne])
    apply (rule exI [of _ resp])
    apply (rule exI [of _ st'])
    apply (rule exI [of _ tasks])
    apply (rule exI [of _ d])
    apply (intro conjI)
           apply (rule u1)
          apply (rule u2)
         apply (rule u3)
        apply (rule u4)
       apply (rule b)
      apply (rule n)
     apply (rule s)
    apply (rule t)
    done
qed


section \<open>Background ingestion and the document life cycle\<close>






lemma get_document_in_set:
  "get_document st i = Some d \<Longrightarrow> d \<in> set (db_documents st) \<and> doc_id d = i"
  using find_Some_props [of "\<lambda>d. doc_id d = i" "db_documents st" d]
  by (simp add: get_document_def)


































end
